theory Spec2Isabelle
  imports Main "HOL-Library.Sublist"
begin

section \<open>yeet: a dead-drop messenger over gpg, gists and git\<close>

text \<open>
  A shallow embedding of \<^verbatim>\<open>src/yeet/main.py\<close>. Python \<^verbatim>\<open>str\<close> values are
  \<^typ>\<open>string\<close>s, one \<^typ>\<open>char\<close> per code point (code points above 255 are outside the
  model); \<^verbatim>\<open>bytes\<close> values are \<^typ>\<open>string\<close>s too, one \<^typ>\<open>char\<close> per byte, and are
  told apart from text by the constructor of \<open>pyval\<close> where the code depends on the
  difference. Every exception that the code raises, or that a failing library call
  raises inside it, is a value of \<open>error\<close>; the external programs and services
  (gpg, git, the gist API, the file system) are the fields of the record \<open>world\<close>.
\<close>

subsection \<open>Python exceptions\<close>

datatype error =
    ClickException string       \<comment> \<open>\<^verbatim>\<open>click.ClickException(message)\<close>\<close>
  | UsageError string           \<comment> \<open>click rejects a command-line argument\<close>
  | RuntimeError string
  | StopIteration               \<comment> \<open>\<^verbatim>\<open>next(it)\<close> on an exhausted iterator, no default\<close>
  | IndexError
  | TypeError string
  | AttributeError string
  | UnicodeDecodeError
  | FileNotFoundError
  | ValidationError             \<comment> \<open>\<^verbatim>\<open>pydantic.ValidationError\<close>\<close>
  | ConnectionError             \<comment> \<open>\<^verbatim>\<open>requests\<close> could not reach the server\<close>
  | HTTPError int               \<comment> \<open>\<^verbatim>\<open>response.raise_for_status()\<close>\<close>
  | CalledProcessError string   \<comment> \<open>\<^verbatim>\<open>subprocess.run(..., check=True)\<close>, the failing command\<close>
  | BeyondModel                 \<comment> \<open>no exception: text with a code point above 255\<close>

subsection \<open>Python's string and iterator operations\<close>

text \<open>\<^verbatim>\<open>a in b\<close> on strings is \<^const>\<open>sublist\<close>, \<^verbatim>\<open>s.startswith(p)\<close> is \<^const>\<open>prefix\<close>.\<close>

definition linebreak :: "char \<Rightarrow> bool" where
  "linebreak c = (c \<in> set [CHR 0x0A, CHR 0x0B, CHR 0x0C, CHR 0x0D,
                            CHR 0x1C, CHR 0x1D, CHR 0x1E, CHR 0x85])"

text \<open>\<^verbatim>\<open>str.splitlines()\<close>: the first argument is the line read so far, reversed.\<close>

fun splitlines_from :: "string \<Rightarrow> string \<Rightarrow> string list" where
  "splitlines_from cur [] = (if cur = [] then [] else [rev cur])"
| "splitlines_from cur [c] = (if linebreak c then [rev cur] else [rev (c # cur)])"
| "splitlines_from cur (c # d # cs) =
     (if c = CHR 0x0D \<and> d = CHR 0x0A then rev cur # splitlines_from [] cs
      else if linebreak c then rev cur # splitlines_from [] (d # cs)
      else splitlines_from (c # cur) (d # cs))"

definition splitlines :: "string \<Rightarrow> string list" where
  "splitlines s = splitlines_from [] s"

text \<open>\<^verbatim>\<open>s.split(sep)\<close> for a separator of one character.\<close>

fun split_on :: "char \<Rightarrow> string \<Rightarrow> string list" where
  "split_on sep [] = [[]]"
| "split_on sep (c # cs) =
     (if c = sep then [] # split_on sep cs
      else (case split_on sep cs of [] \<Rightarrow> [[c]] | x # xs \<Rightarrow> (c # x) # xs))"

text \<open>
  \<^verbatim>\<open>next((x for x in it if p(x)), None)\<close> on an iterator \<open>it\<close>: the first element that
  satisfies \<open>p\<close>, and the iterator as it is left behind (everything after that element;
  exhausted when there is none).
\<close>

fun next_where :: "('a \<Rightarrow> bool) \<Rightarrow> 'a list \<Rightarrow> 'a option \<times> 'a list" where
  "next_where p [] = (None, [])"
| "next_where p (x # xs) = (if p x then (Some x, xs) else next_where p xs)"

text \<open>\<^verbatim>\<open>not v\<close> for a value that is \<^verbatim>\<open>None\<close> or a string.\<close>

fun falsy :: "string option \<Rightarrow> bool" where
  "falsy None = True"
| "falsy (Some s) = (s = [])"

text \<open>A value that is \<^verbatim>\<open>str\<close> or \<^verbatim>\<open>bytes\<close>.\<close>

datatype pyval = PyStr string | PyBytes string

subsection \<open>The registry\<close>

record Receiver =
  nickname :: string
  rx_gist_id :: string
  tx_gist_url :: string

record Config =
  receivers :: "Receiver list"

subsection \<open>The world outside the program\<close>

text \<open>What a run of gpg leaves behind, as far as the code reads it.\<close>

record decrypt_proc =
  d_returncode :: int
  d_stdout :: "string option"     \<comment> \<open>the plaintext decoded (\<^verbatim>\<open>text=True\<close>); \<open>None\<close> when it cannot be\<close>
  d_stderr :: "string option"     \<comment> \<open>the diagnostics decoded (\<^verbatim>\<open>text=True\<close>); \<open>None\<close> when they cannot be\<close>
  d_status :: "string option"     \<comment> \<open>the status file decoded; \<open>None\<close> when it is not UTF-8\<close>

record encrypt_proc =
  e_returncode :: int
  e_stdout :: "string option"     \<comment> \<open>\<^verbatim>\<open>proc.stdout.decode()\<close>; \<open>None\<close> when it is not UTF-8\<close>
  e_stderr :: string              \<comment> \<open>\<^verbatim>\<open>bytes\<close>: the run is not in text mode\<close>

text \<open>
  The answer of the gist API: no answer at all, or a status code and the body's
  \<^verbatim>\<open>"files"\<close> object, when it has one, as the dictionary \<^verbatim>\<open>response.json()\<close> builds
  (file names in the order of the body, each with its \<^verbatim>\<open>"content"\<close>).
\<close>

datatype http_result =
    Unreachable
  | Response int "(string \<times> string) list option"

text \<open>
  A directory of the cache: absent, a plain directory with its entries, or a git
  working copy: the URL of its remote \<^verbatim>\<open>origin\<close>, the entries beside
  \<^verbatim>\<open>.git\<close>, and the committed snapshots, newest first.
\<close>

type_synonym tree = "(string \<times> string) list"

record working_copy =
  origin :: string
  entries :: tree
  commits :: "tree list"

datatype dir_state = Absent | PlainDir tree | Repo working_copy

record world =
  gpg_installed :: bool
  config_file :: "string option"                   \<comment> \<open>contents of \<^verbatim>\<open>CONFIG_FILE\<close>\<close>
  http_get :: "string \<Rightarrow> http_result"
  gpg_list_keys :: "string \<Rightarrow> string"              \<comment> \<open>stdout of \<^verbatim>\<open>gpg --list-keys --with-colons\<close>\<close>
  gpg_decrypt :: "string \<Rightarrow> decrypt_proc"
  gpg_encrypt :: "string \<Rightarrow> string \<Rightarrow> encrypt_proc"  \<comment> \<open>cleartext, recipient\<close>
  readable_file :: "string \<Rightarrow> string option"       \<comment> \<open>bytes of a file that can be opened\<close>
  stdin_text :: string                             \<comment> \<open>what \<^verbatim>\<open>sys.stdin.read()\<close> returns\<close>
  stdin_bytes :: string                            \<comment> \<open>the same input read in binary mode\<close>
  cache :: "string \<Rightarrow> dir_state"                   \<comment> \<open>directories under \<^verbatim>\<open>CACHE_DIR\<close>, by path\<close>
  remote :: "string \<Rightarrow> tree list option"           \<comment> \<open>remote repositories by URL, newest first\<close>
  push_allowed :: bool                             \<comment> \<open>the remote accepts this user's pushes\<close>

subsection \<open>Resolving a fingerprint\<close>

text \<open>
  \<^verbatim>\<open>
  lines = proc.stdout.splitlines()
  it = iter(lines)
  if not next((x for x in it if x.startswith("pub:")), None):
      return None
  fpr = next((x for x in it if x.startswith("fpr:")), None)
  if fpr is None:
      return None
  return fpr.split(":")[9]
  \<close>
  The two searches share the iterator: the second starts after the \<^verbatim>\<open>pub:\<close> line.
\<close>

definition fingerprint_from_pattern :: "world \<Rightarrow> string \<Rightarrow> error + string option" where
  "fingerprint_from_pattern w pattern =
     (let lines = splitlines (gpg_list_keys w pattern);
          (pub, it) = next_where (prefix ''pub:'') lines
      in if falsy pub then Inr None
         else (case next_where (prefix ''fpr:'') it of
                 (None, _) \<Rightarrow> Inr None
               | (Some fpr, _) \<Rightarrow>
                   (let fields = split_on CHR '':'' fpr
                    in if 9 < length fields then Inr (Some (fields ! 9))
                       else Inl IndexError)))"

subsection \<open>Decrypting and encrypting\<close>

definition SignatureMissing :: error where
  "SignatureMissing = ClickException ''Unable to verify signature (VALIDSIG not found)''"

definition SignerMismatch :: error where
  "SignerMismatch = ClickException ''Signature valid but from different sender''"

text \<open>
  The status line that decides: the first one that contains \<^verbatim>\<open>" VALIDSIG "\<close>.
\<close>

definition sig_line :: "string list \<Rightarrow> string option" where
  "sig_line status = find (sublist '' VALIDSIG '') status"

text \<open>
  \<^verbatim>\<open>
  status = status_fd.read().decode().splitlines()
  sig_line = next((s for s in status if " VALIDSIG " in s), None)
  if not sig_line:
      raise click.ClickException("Unable to verify signature (VALIDSIG not found)")
  if fingerprint not in sig_line:
      raise click.ClickException("Signature valid but from different sender")
  return proc.stdout
  \<close>
  The run is in text mode (\<^verbatim>\<open>text=True\<close>): \<^verbatim>\<open>subprocess.run\<close> decodes what gpg wrote to
  its standard output and standard error, and raises a \<^verbatim>\<open>UnicodeDecodeError\<close> when one of
  them cannot be decoded, before the status is read. The exit code of gpg is not read.
  With \<^verbatim>\<open>None\<close> on its left, \<^verbatim>\<open>not in\<close> raises a \<^verbatim>\<open>TypeError\<close>.
\<close>

definition decrypt :: "world \<Rightarrow> string \<Rightarrow> string option \<Rightarrow> error + string" where
  "decrypt w encrypted fingerprint =
     (let proc = gpg_decrypt w encrypted
      in case d_stdout proc of
           None \<Rightarrow> Inl UnicodeDecodeError
         | Some plaintext \<Rightarrow>
             (case d_stderr proc of
                None \<Rightarrow> Inl UnicodeDecodeError
              | Some diagnostics \<Rightarrow>
                  (case d_status proc of
                     None \<Rightarrow> Inl UnicodeDecodeError
                   | Some text \<Rightarrow>
                       (case sig_line (splitlines text) of
                          None \<Rightarrow> Inl SignatureMissing
                        | Some line \<Rightarrow>
                            if line = [] then Inl SignatureMissing
                            else (case fingerprint of
                                    None \<Rightarrow>
                                      Inl (TypeError
                                        ''in <string> requires string as left operand, not NoneType'')
                                  | Some fp \<Rightarrow>
                                      if \<not> sublist fp line then Inl SignerMismatch
                                      else Inr plaintext)))))"

text \<open>
  \<^verbatim>\<open>
  proc = subprocess.run([...], input=cleartext.encode(),
                        stdout=subprocess.PIPE, stderr=subprocess.PIPE)
  if proc.returncode != 0:
      raise click.ClickException("Unable to encrypt message..." + proc.stderr.read())
  return proc.stdout.decode()
  \<close>
  \<^verbatim>\<open>bytes\<close> has no method \<^verbatim>\<open>encode\<close>; and the run is not in text mode, so \<^verbatim>\<open>proc.stderr\<close>
  is a \<^verbatim>\<open>bytes\<close> object, which has no method \<^verbatim>\<open>read\<close>: the argument of the
  \<^verbatim>\<open>ClickException\<close> raises an \<^verbatim>\<open>AttributeError\<close> first.
\<close>

definition encrypt :: "world \<Rightarrow> pyval \<Rightarrow> string \<Rightarrow> error + string" where
  "encrypt w cleartext receiver_fingerprint =
     (case cleartext of
        PyBytes _ \<Rightarrow> Inl (AttributeError ''bytes object has no attribute encode'')
      | PyStr text \<Rightarrow>
          (let proc = gpg_encrypt w text receiver_fingerprint
           in if e_returncode proc \<noteq> 0
              then Inl (AttributeError ''bytes object has no attribute read'')
              else (case e_stdout proc of
                      None \<Rightarrow> Inl UnicodeDecodeError
                    | Some armored \<Rightarrow> Inr armored)))"

subsection \<open>Fetching a gist\<close>

text \<open>
  \<^verbatim>\<open>
  response.raise_for_status()
  gist = response.json()
  first_file = next(iter(gist.get("files", {})))
  if not first_file:
      raise RuntimeError("No file in gist")
  return gist.get("files").get(first_file).get("content")
  \<close>
  \<^verbatim>\<open>next\<close> has no default here: on an empty dictionary it raises \<^verbatim>\<open>StopIteration\<close>.
\<close>

definition get_gist :: "world \<Rightarrow> string \<Rightarrow> error + string" where
  "get_gist w ident =
     (case http_get w (''https://api.github.com/gists/'' @ ident) of
        Unreachable \<Rightarrow> Inl ConnectionError
      | Response code files \<Rightarrow>
          if 400 \<le> code \<and> code < 600 then Inl (HTTPError code)
          else (let fs = (case files of None \<Rightarrow> [] | Some fs \<Rightarrow> fs)
                in case fs of
                     [] \<Rightarrow> Inl StopIteration
                   | (first_file, _) # _ \<Rightarrow>
                       if first_file = [] then Inl (RuntimeError ''No file in gist'')
                       else (case map_of fs first_file of
                               None \<Rightarrow> Inl (AttributeError ''NoneType object has no attribute get'')
                             | Some content \<Rightarrow> Inr content)))"

subsection \<open>JSON text: what \<^verbatim>\<open>json.dump\<close> writes and what pydantic reads\<close>

datatype json =
    JNull
  | JBool bool
  | JNum string
  | JStr string
  | JArr "json list"
  | JObj "(string \<times> json) list"

text \<open>
  \<^verbatim>\<open>json.dump(obj, f, indent=2)\<close> escapes every character outside the printable ASCII
  range (\<^verbatim>\<open>ensure_ascii\<close> is on), separates items by a comma and a line break, and
  indents by two spaces a level.
\<close>

definition hex_digit :: "nat \<Rightarrow> char" where
  "hex_digit n = ''0123456789abcdef'' ! (n mod 16)"

definition escape_char :: "char \<Rightarrow> string" where
  "escape_char c =
     (if c = CHR 0x22 then [CHR 0x5C, CHR 0x22]
      else if c = CHR 0x5C then [CHR 0x5C, CHR 0x5C]
      else if c = CHR 0x0A then [CHR 0x5C, CHR ''n'']
      else if c = CHR 0x0D then [CHR 0x5C, CHR ''r'']
      else if c = CHR 0x09 then [CHR 0x5C, CHR ''t'']
      else if c = CHR 0x08 then [CHR 0x5C, CHR ''b'']
      else if c = CHR 0x0C then [CHR 0x5C, CHR ''f'']
      else if 32 \<le> (of_char c :: nat) \<and> (of_char c :: nat) \<le> 126 then [c]
      else [CHR 0x5C, CHR ''u'', CHR ''0'', CHR ''0'',
            hex_digit (of_char c div 16), hex_digit (of_char c mod 16)])"

definition encode_string :: "string \<Rightarrow> string" where
  "encode_string s = CHR 0x22 # concat (map escape_char s) @ [CHR 0x22]"

definition newline_indent :: "nat \<Rightarrow> string" where
  "newline_indent level = CHR 0x0A # replicate (2 * level) CHR '' ''"

fun join :: "string \<Rightarrow> string list \<Rightarrow> string" where
  "join sep [] = []"
| "join sep [x] = x"
| "join sep (x # y # ys) = x @ sep @ join sep (y # ys)"

fun json_encode :: "nat \<Rightarrow> json \<Rightarrow> string" where
  "json_encode level JNull = ''null''"
| "json_encode level (JBool b) = (if b then ''true'' else ''false'')"
| "json_encode level (JNum n) = n"
| "json_encode level (JStr s) = encode_string s"
| "json_encode level (JArr vs) =
     (if vs = [] then ''[]''
      else ''['' @ newline_indent (Suc level)
           @ join ('','' @ newline_indent (Suc level)) (map (json_encode (Suc level)) vs)
           @ newline_indent level @ '']'')"
| "json_encode level (JObj ms) =
     (if ms = [] then ''{}''
      else ''{'' @ newline_indent (Suc level)
           @ join ('','' @ newline_indent (Suc level))
               (map (\<lambda>m. encode_string (fst m) @ '': '' @ json_encode (Suc level) (snd m)) ms)
           @ newline_indent level @ ''}'')"

text \<open>
  Reading JSON text (RFC 8259): a scanner that turns the characters into tokens,
  one character at a time, and a parser that builds the value with a stack of the
  arrays and objects that are still open.
\<close>

datatype token =
    TLBrace | TRBrace | TLBrack | TRBrack | TColon | TComma
  | TStr string
  | TBare string      \<comment> \<open>a run of letters, digits, signs and dots: a literal or a number\<close>

datatype scan =
    Between                   \<comment> \<open>between tokens\<close>
  | InBare string             \<comment> \<open>in a literal or number, its characters reversed\<close>
  | InStr string              \<comment> \<open>in a string, its characters reversed\<close>
  | InEsc string              \<comment> \<open>after a backslash\<close>
  | InHex string "nat list"   \<comment> \<open>after \<^verbatim>\<open>\u\<close>, the digits read\<close>
  | BeyondLatin1              \<comment> \<open>a \<^verbatim>\<open>\u\<close> escape above 255: outside the model\<close>

definition whitespace :: "char \<Rightarrow> bool" where
  "whitespace c = (c \<in> set [CHR '' '', CHR 0x09, CHR 0x0A, CHR 0x0D])"

definition bare_char :: "char \<Rightarrow> bool" where
  "bare_char c = (c \<in> set ''abcdefghijklmnopqrstuvwxyzABCDEFGHIJKLMNOPQRSTUVWXYZ0123456789+-.'')"

definition hex_value :: "char \<Rightarrow> nat option" where
  "hex_value c =
     map_of (zip ''0123456789abcdefABCDEF''
                 [0, 1, 2, 3, 4, 5, 6, 7, 8, 9, 10, 11, 12, 13, 14, 15, 10, 11, 12, 13, 14, 15]) c"

definition scan_between :: "token list \<Rightarrow> char \<Rightarrow> (scan \<times> token list) option" where
  "scan_between toks c =
     (if whitespace c then Some (Between, toks)
      else if c = CHR ''{'' then Some (Between, TLBrace # toks)
      else if c = CHR ''}'' then Some (Between, TRBrace # toks)
      else if c = CHR ''['' then Some (Between, TLBrack # toks)
      else if c = CHR '']'' then Some (Between, TRBrack # toks)
      else if c = CHR '':'' then Some (Between, TColon # toks)
      else if c = CHR '','' then Some (Between, TComma # toks)
      else if c = CHR 0x22 then Some (InStr [], toks)
      else if bare_char c then Some (InBare [c], toks)
      else None)"

definition unescape :: "char \<Rightarrow> char option" where
  "unescape c =
     map_of [(CHR 0x22, CHR 0x22), (CHR 0x5C, CHR 0x5C), (CHR ''/'', CHR ''/''),
             (CHR ''b'', CHR 0x08), (CHR ''f'', CHR 0x0C), (CHR ''n'', CHR 0x0A),
             (CHR ''r'', CHR 0x0D), (CHR ''t'', CHR 0x09)] c"

text \<open>The tokens are collected newest first.\<close>

fun scan_step :: "scan \<Rightarrow> token list \<Rightarrow> char \<Rightarrow> (scan \<times> token list) option" where
  "scan_step Between toks c = scan_between toks c"
| "scan_step (InBare b) toks c =
     (if bare_char c then Some (InBare (c # b), toks)
      else scan_between (TBare (rev b) # toks) c)"
| "scan_step (InStr s) toks c =
     (if c = CHR 0x22 then Some (Between, TStr (rev s) # toks)
      else if c = CHR 0x5C then Some (InEsc s, toks)
      else if (of_char c :: nat) < 32 then None
      else Some (InStr (c # s), toks))"
| "scan_step (InEsc s) toks c =
     (if c = CHR ''u'' then Some (InHex s [], toks)
      else (case unescape c of None \<Rightarrow> None | Some d \<Rightarrow> Some (InStr (d # s), toks)))"
| "scan_step (InHex s ds) toks c =
     (case hex_value c of
        None \<Rightarrow> None
      | Some d \<Rightarrow>
          (case ds of
             [d1, d2, d3] \<Rightarrow>
               (let code = ((d1 * 16 + d2) * 16 + d3) * 16 + d
                in if code < 256 then Some (InStr (char_of code # s), toks)
                   else Some (BeyondLatin1, toks))
           | _ \<Rightarrow> Some (InHex s (ds @ [d]), toks)))"
| "scan_step BeyondLatin1 toks c = Some (BeyondLatin1, toks)"

fun scan_all :: "scan \<Rightarrow> token list \<Rightarrow> string \<Rightarrow> (scan \<times> token list) option" where
  "scan_all st toks [] = Some (st, toks)"
| "scan_all st toks (c # cs) =
     (case scan_step st toks c of
        None \<Rightarrow> None
      | Some (st', toks') \<Rightarrow> scan_all st' toks' cs)"

datatype 'a parsed = Parsed 'a | Malformed | Unsupported

definition tokens :: "string \<Rightarrow> token list parsed" where
  "tokens s =
     (case scan_all Between [] s of
        None \<Rightarrow> Malformed
      | Some (Between, toks) \<Rightarrow> Parsed (rev toks)
      | Some (InBare b, toks) \<Rightarrow> Parsed (rev (TBare (rev b) # toks))
      | Some (BeyondLatin1, toks) \<Rightarrow> Unsupported
      | Some (_, toks) \<Rightarrow> Malformed)"

text \<open>A number of the JSON grammar: sign, integer part, fraction, exponent.\<close>

definition digit :: "char \<Rightarrow> bool" where
  "digit c = (c \<in> set ''0123456789'')"

definition digits_then :: "(string \<Rightarrow> bool) \<Rightarrow> string \<Rightarrow> bool" where
  "digits_then k s = (takeWhile digit s \<noteq> [] \<and> k (dropWhile digit s))"

definition exponent_opt :: "string \<Rightarrow> bool" where
  "exponent_opt s =
     (case s of
        [] \<Rightarrow> True
      | c # cs \<Rightarrow>
          (c = CHR ''e'' \<or> c = CHR ''E'') \<and>
          (case cs of
             [] \<Rightarrow> False
           | d # ds \<Rightarrow> if d = CHR ''+'' \<or> d = CHR ''-'' then digits_then (\<lambda>r. r = []) ds
                       else digits_then (\<lambda>r. r = []) cs))"

definition fraction_opt :: "string \<Rightarrow> bool" where
  "fraction_opt s =
     (case s of
        c # cs \<Rightarrow> if c = CHR ''.'' then digits_then exponent_opt cs else exponent_opt s
      | [] \<Rightarrow> True)"

definition json_number :: "string \<Rightarrow> bool" where
  "json_number s =
     (let u = (case s of c # cs \<Rightarrow> if c = CHR ''-'' then cs else s | [] \<Rightarrow> s)
      in case u of
           [] \<Rightarrow> False
         | c # cs \<Rightarrow> if c = CHR ''0'' then fraction_opt cs else digits_then fraction_opt u)"

definition bare_value :: "string \<Rightarrow> json option" where
  "bare_value b =
     (if b = ''null'' then Some JNull
      else if b = ''true'' then Some (JBool True)
      else if b = ''false'' then Some (JBool False)
      else if json_number b then Some (JNum b)
      else None)"

datatype frame =
    FArr "json list"                      \<comment> \<open>an open array, its elements newest first\<close>
  | FObj "(string \<times> json) list" string    \<comment> \<open>an open object, and the key whose value is read\<close>

datatype pstate =
    PValue "frame list"                               \<comment> \<open>a value must follow\<close>
  | PArr0 "frame list"                                \<comment> \<open>after \<^verbatim>\<open>[\<close>\<close>
  | PArr "json list" "frame list"                     \<comment> \<open>after an element\<close>
  | PObj0 "frame list"                                \<comment> \<open>after \<^verbatim>\<open>{\<close>\<close>
  | PKey "(string \<times> json) list" "frame list"          \<comment> \<open>after a comma in an object\<close>
  | PColon "(string \<times> json) list" string "frame list"  \<comment> \<open>after a key\<close>
  | PObj "(string \<times> json) list" "frame list"          \<comment> \<open>after a member\<close>
  | PDone json

fun reduce :: "json \<Rightarrow> frame list \<Rightarrow> pstate" where
  "reduce v [] = PDone v"
| "reduce v (FArr acc # fs) = PArr (v # acc) fs"
| "reduce v (FObj ms k # fs) = PObj ((k, v) # ms) fs"

fun start_value :: "token \<Rightarrow> frame list \<Rightarrow> pstate option" where
  "start_value (TStr s) fs = Some (reduce (JStr s) fs)"
| "start_value (TBare b) fs = (case bare_value b of None \<Rightarrow> None | Some v \<Rightarrow> Some (reduce v fs))"
| "start_value TLBrack fs = Some (PArr0 fs)"
| "start_value TLBrace fs = Some (PObj0 fs)"
| "start_value _ fs = None"

fun pstep :: "pstate \<Rightarrow> token \<Rightarrow> pstate option" where
  "pstep (PValue fs) t = start_value t fs"
| "pstep (PArr0 fs) t = (if t = TRBrack then Some (reduce (JArr []) fs) else start_value t (FArr [] # fs))"
| "pstep (PArr acc fs) t =
     (if t = TComma then Some (PValue (FArr acc # fs))
      else if t = TRBrack then Some (reduce (JArr (rev acc)) fs)
      else None)"
| "pstep (PObj0 fs) t =
     (case t of TRBrace \<Rightarrow> Some (reduce (JObj []) fs) | TStr k \<Rightarrow> Some (PColon [] k fs) | _ \<Rightarrow> None)"
| "pstep (PKey ms fs) t = (case t of TStr k \<Rightarrow> Some (PColon ms k fs) | _ \<Rightarrow> None)"
| "pstep (PColon ms k fs) t = (if t = TColon then Some (PValue (FObj ms k # fs)) else None)"
| "pstep (PObj ms fs) t =
     (if t = TComma then Some (PKey ms fs)
      else if t = TRBrace then Some (reduce (JObj (rev ms)) fs)
      else None)"
| "pstep (PDone v) t = None"

fun prun :: "pstate \<Rightarrow> token list \<Rightarrow> pstate option" where
  "prun st [] = Some st"
| "prun st (t # ts) = (case pstep st t of None \<Rightarrow> None | Some st' \<Rightarrow> prun st' ts)"

definition json_parse :: "string \<Rightarrow> json parsed" where
  "json_parse s =
     (case tokens s of
        Malformed \<Rightarrow> Malformed
      | Unsupported \<Rightarrow> Unsupported
      | Parsed ts \<Rightarrow> (case prun (PValue []) ts of Some (PDone v) \<Rightarrow> Parsed v | _ \<Rightarrow> Malformed))"

text \<open>
  The tokens of a value, as the parser expects them, and the values made of strings,
  arrays and objects only (what \<open>model_dump\<close> produces).
\<close>

fun commas :: "token list list \<Rightarrow> token list" where
  "commas [] = []"
| "commas [x] = x"
| "commas (x # y # ys) = x @ TComma # commas (y # ys)"

fun toks_of :: "json \<Rightarrow> token list" where
  "toks_of JNull = [TBare ''null'']"
| "toks_of (JBool b) = [TBare (if b then ''true'' else ''false'')]"
| "toks_of (JNum n) = [TBare n]"
| "toks_of (JStr s) = [TStr s]"
| "toks_of (JArr vs) = TLBrack # commas (map toks_of vs) @ [TRBrack]"
| "toks_of (JObj ms) =
     TLBrace # commas (map (\<lambda>m. TStr (fst m) # TColon # toks_of (snd m)) ms) @ [TRBrace]"

fun plain :: "json \<Rightarrow> bool" where
  "plain (JStr s) = True"
| "plain (JArr vs) = list_all plain vs"
| "plain (JObj ms) = list_all (\<lambda>m. plain (snd m)) ms"
| "plain _ = False"

subsection \<open>Loading and saving the registry\<close>

definition dump_receiver :: "Receiver \<Rightarrow> json" where
  "dump_receiver r =
     JObj [(''nickname'', JStr (nickname r)),
           (''rx_gist_id'', JStr (rx_gist_id r)),
           (''tx_gist_url'', JStr (tx_gist_url r))]"

definition model_dump :: "Config \<Rightarrow> json" where
  "model_dump config = JObj [(''receivers'', JArr (map dump_receiver (receivers config)))]"

text \<open>
  Validation against the two models: a field is read from the last member of that
  name, members of other names are ignored, and \<open>receivers\<close> defaults to the empty
  list.
\<close>

definition field :: "(string \<times> json) list \<Rightarrow> string \<Rightarrow> json option" where
  "field ms k = map_of (rev ms) k"

definition str_field :: "(string \<times> json) list \<Rightarrow> string \<Rightarrow> string option" where
  "str_field ms k = (case field ms k of Some (JStr s) \<Rightarrow> Some s | _ \<Rightarrow> None)"

definition validate_receiver :: "json \<Rightarrow> Receiver option" where
  "validate_receiver v =
     (case v of
        JObj ms \<Rightarrow>
          (case (str_field ms ''nickname'', str_field ms ''rx_gist_id'', str_field ms ''tx_gist_url'') of
             (Some n, Some rx, Some tx) \<Rightarrow> Some \<lparr>nickname = n, rx_gist_id = rx, tx_gist_url = tx\<rparr>
           | _ \<Rightarrow> None)
      | _ \<Rightarrow> None)"

fun validate_all :: "json list \<Rightarrow> Receiver list option" where
  "validate_all [] = Some []"
| "validate_all (v # vs) =
     (case validate_receiver v of
        None \<Rightarrow> None
      | Some r \<Rightarrow> (case validate_all vs of None \<Rightarrow> None | Some rs \<Rightarrow> Some (r # rs)))"

definition validate_config :: "json \<Rightarrow> Config option" where
  "validate_config v =
     (case v of
        JObj ms \<Rightarrow>
          (case field ms ''receivers'' of
             None \<Rightarrow> Some \<lparr>receivers = []\<rparr>
           | Some (JArr vs) \<Rightarrow>
               (case validate_all vs of None \<Rightarrow> None | Some rs \<Rightarrow> Some \<lparr>receivers = rs\<rparr>)
           | Some _ \<Rightarrow> None)
      | _ \<Rightarrow> None)"

definition model_validate_json :: "string \<Rightarrow> error + Config" where
  "model_validate_json contents =
     (case json_parse contents of
        Malformed \<Rightarrow> Inl ValidationError
      | Unsupported \<Rightarrow> Inl BeyondModel
      | Parsed v \<Rightarrow> (case validate_config v of None \<Rightarrow> Inl ValidationError | Some c \<Rightarrow> Inr c))"

definition load_config :: "world \<Rightarrow> error + Config" where
  "load_config w =
     (case config_file w of
        None \<Rightarrow> Inl FileNotFoundError
      | Some contents \<Rightarrow>
          if contents = [] then Inr \<lparr>receivers = []\<rparr>
          else model_validate_json contents)"

definition save_config :: "world \<Rightarrow> Config \<Rightarrow> world" where
  "save_config w config = w\<lparr>config_file := Some (json_encode 0 (model_dump config))\<rparr>"

subsection \<open>Publishing through git\<close>

text \<open>
  git as the code drives it. \<^verbatim>\<open>git remote -v\<close> fails outside a working copy;
  \<^verbatim>\<open>git clone\<close> needs a remote that exists and a destination that is absent or
  empty; \<^verbatim>\<open>git commit\<close> exits with 1 when the staged files are those of the last
  commit; \<^verbatim>\<open>git push\<close> needs the remote's history to be the tail of the local one.
\<close>

definition CACHE_DIR :: string where
  "CACHE_DIR = ''~/.cache/yeet''"

text \<open>What \<^verbatim>\<open>git remote -v\<close> prints in a working copy cloned from \<open>url\<close>.\<close>

definition remote_v_of :: "string \<Rightarrow> string" where
  "remote_v_of url =
     ''origin'' @ [CHR 0x09] @ url @ '' (fetch)'' @ [CHR 0x0A] @
     ''origin'' @ [CHR 0x09] @ url @ '' (push)'' @ [CHR 0x0A]"

definition git_clone :: "world \<Rightarrow> string \<Rightarrow> string \<Rightarrow> (error + unit) \<times> world" where
  "git_clone w url path =
     (case remote w url of
        None \<Rightarrow> (Inl (CalledProcessError ''git clone''), w)
      | Some history \<Rightarrow>
          if cache w path = Absent \<or> cache w path = PlainDir []
          then (Inr (),
                w\<lparr>cache := (cache w)(path :=
                     Repo \<lparr>origin = url,
                           entries = (case history of [] \<Rightarrow> [] | t # _ \<Rightarrow> t),
                           commits = history\<rparr>)\<rparr>)
          else (Inl (CalledProcessError ''git clone''), w))"

definition ensure_repo_exists :: "world \<Rightarrow> string \<Rightarrow> string \<Rightarrow> (error + unit) \<times> world" where
  "ensure_repo_exists w path url =
     (let must_clone =
            (case cache w path of
               Repo wc \<Rightarrow> \<not> list_ex (sublist url) (splitlines (remote_v_of (origin wc)))
             | _ \<Rightarrow> True)
      in if must_clone then git_clone w url path else (Inr (), w))"

definition set_repo_message :: "world \<Rightarrow> string \<Rightarrow> string \<Rightarrow> (error + unit) \<times> world" where
  "set_repo_message w path message =
     (case cache w path of
        Absent \<Rightarrow> (Inl FileNotFoundError, w)
      | PlainDir es \<Rightarrow> (Inr (), w\<lparr>cache := (cache w)(path := PlainDir [(''text.txt'', message)])\<rparr>)
      | Repo wc \<Rightarrow>
          (Inr (), w\<lparr>cache := (cache w)(path := Repo (wc\<lparr>entries := [(''text.txt'', message)]\<rparr>))\<rparr>))"

definition nothing_to_commit :: "working_copy \<Rightarrow> bool" where
  "nothing_to_commit wc =
     (case commits wc of [] \<Rightarrow> entries wc = [] | head # _ \<Rightarrow> set (entries wc) = set head)"

definition commit_and_push :: "world \<Rightarrow> string \<Rightarrow> (error + unit) \<times> world" where
  "commit_and_push w path =
     (case cache w path of
        Repo wc \<Rightarrow>
          if nothing_to_commit wc then (Inl (CalledProcessError ''git commit''), w)
          else (let wc' = wc\<lparr>commits := entries wc # commits wc\<rparr>;
                    w' = w\<lparr>cache := (cache w)(path := Repo wc')\<rparr>
                in case remote w' (origin wc') of
                     None \<Rightarrow> (Inl (CalledProcessError ''git push''), w')
                   | Some history \<Rightarrow>
                       if push_allowed w' \<and> suffix history (commits wc')
                       then (Inr (), w'\<lparr>remote := (remote w')(origin wc' := Some (commits wc'))\<rparr>)
                       else (Inl (CalledProcessError ''git push''), w'))
      | _ \<Rightarrow> (Inl (CalledProcessError ''git add''), w))"

definition set_gist :: "world \<Rightarrow> string \<Rightarrow> string \<Rightarrow> string \<Rightarrow> (error + unit) \<times> world" where
  "set_gist w nick gist_url content =
     (let repo_path = CACHE_DIR @ ''/'' @ nick @ ''/tx''
      in case ensure_repo_exists w repo_path gist_url of
           (Inl e, w1) \<Rightarrow> (Inl e, w1)
         | (Inr _, w1) \<Rightarrow>
             (case set_repo_message w1 repo_path content of
                (Inl e, w2) \<Rightarrow> (Inl e, w2)
              | (Inr _, w2) \<Rightarrow> commit_and_push w2 repo_path))"

subsection \<open>The commands\<close>

definition quoted :: "string \<Rightarrow> string" where
  "quoted s = [CHR 0x27] @ s @ [CHR 0x27]"

definition NoKeyFound :: "string \<Rightarrow> error" where
  "NoKeyFound nick = ClickException (''No GPG public key found for '' @ quoted nick)"

definition DuplicateNickname :: "string \<Rightarrow> error" where
  "DuplicateNickname nick = ClickException (nick @ '' is already configured'')"

definition NotRegistered :: "string \<Rightarrow> error" where
  "NotRegistered nick = ClickException (quoted nick @ '' not found'')"

text \<open>The group callback, run before every command.\<close>

definition main :: "world \<Rightarrow> error + world" where
  "main w =
     (if \<not> gpg_installed w then Inl (ClickException (quoted ''gpg'' @ '' not found''))
      else Inr (w\<lparr>config_file := Some (case config_file w of None \<Rightarrow> [] | Some c \<Rightarrow> c)\<rparr>))"

definition add_receiver :: "world \<Rightarrow> string \<Rightarrow> string \<Rightarrow> string \<Rightarrow> (error + unit) \<times> world" where
  "add_receiver w nick rx tx =
     (case fingerprint_from_pattern w nick of
        Inl e \<Rightarrow> (Inl e, w)
      | Inr fp \<Rightarrow>
          if falsy fp then (Inl (NoKeyFound nick), w)
          else (case load_config w of
                  Inl e \<Rightarrow> (Inl e, w)
                | Inr config \<Rightarrow>
                    if nick \<in> set (map nickname (receivers config))
                    then (Inl (DuplicateNickname nick), w)
                    else (let r = \<lparr>nickname = nick, rx_gist_id = rx, tx_gist_url = tx\<rparr>
                          in (Inr (), save_config w (config\<lparr>receivers := receivers config @ [r]\<rparr>)))))"

text \<open>
  The command \<^verbatim>\<open>from\<close>, the function \<^verbatim>\<open>from_\<close> of the source (a name cannot end
  with an underscore here): the result, and what \<^verbatim>\<open>click.echo\<close> has printed.
\<close>

definition from_cmd :: "world \<Rightarrow> string \<Rightarrow> (error + unit) \<times> string list" where
  "from_cmd w nick =
     (case load_config w of
        Inl e \<Rightarrow> (Inl e, [])
      | Inr config \<Rightarrow>
          (case find (\<lambda>r. nickname r = nick) (receivers config) of
             None \<Rightarrow> (Inl (NotRegistered nick), [])
           | Some receiver \<Rightarrow>
               (case get_gist w (rx_gist_id receiver) of
                  Inl e \<Rightarrow> (Inl e, [])
                | Inr encrypted \<Rightarrow>
                    (case fingerprint_from_pattern w nick of
                       Inl e \<Rightarrow> (Inl e, [])
                     | Inr fp \<Rightarrow>
                         (case decrypt w encrypted fp of
                            Inl e \<Rightarrow> (Inl e, [])
                          | Inr decrypted \<Rightarrow> (Inr (), [decrypted]))))))"

text \<open>
  The \<^verbatim>\<open>message_file\<close> argument of \<^verbatim>\<open>to\<close> is a \<^verbatim>\<open>click.File("rb")\<close> with the default
  \<^verbatim>\<open>sys.stdin\<close>: left out, the command gets the text stream \<^verbatim>\<open>sys.stdin\<close> as it is;
  given, click opens the named file in binary mode (\<^verbatim>\<open>-\<close> is the binary standard
  input) before the command runs, and rejects a file it cannot open. The function
  \<^verbatim>\<open>to_\<close> of the source is \<open>to_cmd\<close>.
\<close>

datatype message_arg = DefaultStdin | Named string

definition open_message :: "world \<Rightarrow> message_arg \<Rightarrow> error + pyval" where
  "open_message w arg =
     (case arg of
        DefaultStdin \<Rightarrow> Inr (PyStr (stdin_text w))
      | Named path \<Rightarrow>
          if path = ''-'' then Inr (PyBytes (stdin_bytes w))
          else (case readable_file w path of
                  None \<Rightarrow> Inl (UsageError (''Could not open file '' @ quoted path))
                | Some bytes \<Rightarrow> Inr (PyBytes bytes)))"

definition to_cmd :: "world \<Rightarrow> string \<Rightarrow> message_arg \<Rightarrow> (error + unit) \<times> world" where
  "to_cmd w nick arg =
     (case open_message w arg of
        Inl e \<Rightarrow> (Inl e, w)
      | Inr message \<Rightarrow>
          (case load_config w of
             Inl e \<Rightarrow> (Inl e, w)
           | Inr config \<Rightarrow>
               (case find (\<lambda>r. nickname r = nick) (receivers config) of
                  None \<Rightarrow> (Inl (NotRegistered nick), w)
                | Some receiver \<Rightarrow>
                    (case fingerprint_from_pattern w nick of
                       Inl e \<Rightarrow> (Inl e, w)
                     | Inr fingerprint \<Rightarrow>
                         (case fingerprint of
                            None \<Rightarrow> (Inl (NoKeyFound nick), w)
                          | Some fp \<Rightarrow>
                              if fp = [] then (Inl (NoKeyFound nick), w)
                              else (case encrypt w message fp of
                                      Inl e \<Rightarrow> (Inl e, w)
                                    | Inr encrypted \<Rightarrow>
                                        set_gist w nick (tx_gist_url receiver) encrypted))))))"

subsection \<open>Scenarios\<close>

text \<open>
  Concrete worlds for the examples below: a machine with nothing on it, then Alice's
  machine, where Bob is registered and his key is in the keyring.
\<close>

definition offline_world :: world where
  "offline_world =
     \<lparr>gpg_installed = True,
      config_file = Some [],
      http_get = (\<lambda>url. Unreachable),
      gpg_list_keys = (\<lambda>pattern. []),
      gpg_decrypt = (\<lambda>text. \<lparr>d_returncode = 2, d_stdout = Some [], d_stderr = Some [],
                              d_status = Some []\<rparr>),
      gpg_encrypt = (\<lambda>text fp. \<lparr>e_returncode = 2, e_stdout = Some [], e_stderr = []\<rparr>),
      readable_file = (\<lambda>path. None),
      stdin_text = [],
      stdin_bytes = [],
      cache = (\<lambda>path. Absent),
      remote = (\<lambda>url. None),
      push_allowed = False\<rparr>"

definition fp_bob :: string where
  "fp_bob = ''0123456789ABCDEF0123456789ABCDEF01234567''"

definition fp_eve :: string where
  "fp_eve = ''FEDCBA9876543210FEDCBA9876543210FEDCBA98''"

text \<open>What \<^verbatim>\<open>gpg --list-keys --with-colons\<close> prints for a key with this fingerprint.\<close>

definition key_listing :: "string \<Rightarrow> string \<Rightarrow> string" where
  "key_listing fp uid =
     ''pub:u:255:22:89ABCDEF01234567:1700000000:::u:::scESC:::::ed25519:::0:'' @ [CHR 0x0A] @
     ''fpr:::::::::'' @ fp @ '':'' @ [CHR 0x0A] @
     ''uid:u::::1700000000::5A5A5A5A::'' @ uid @ ''::::::::::0:'' @ [CHR 0x0A]"

text \<open>The status lines of a decryption that found a good signature by this key.\<close>

definition status_valid :: "string \<Rightarrow> string" where
  "status_valid fp =
     ''[GNUPG:] DECRYPTION_OKAY'' @ [CHR 0x0A] @
     ''[GNUPG:] VALIDSIG '' @ fp @ '' 2024-01-01 1704067200 0 4 0 22 10 00 '' @ fp @ [CHR 0x0A]"

definition bob :: Receiver where
  "bob = \<lparr>nickname = ''bob'', rx_gist_id = ''bob-rx'', tx_gist_url = ''https://example/bob-tx.git''\<rparr>"

text \<open>
  Alice's machine: Bob's gist holds one file, which decrypts to \<^verbatim>\<open>hello\<close> with a
  signature by the key given.
\<close>

definition alice_world :: "string \<Rightarrow> world" where
  "alice_world signer =
     offline_world
       \<lparr>config_file := Some (json_encode 0 (model_dump \<lparr>receivers = [bob]\<rparr>)),
        http_get := (\<lambda>url. if url = ''https://api.github.com/gists/bob-rx''
                           then Response 200 (Some [(''text.txt'', ''-----BEGIN PGP MESSAGE-----'')])
                           else Response 404 None),
        gpg_list_keys := (\<lambda>pattern. if pattern = ''bob'' then key_listing fp_bob ''bob'' else []),
        gpg_decrypt := (\<lambda>text. \<lparr>d_returncode = 0, d_stdout = Some ''hello'', d_stderr = Some [],
                                  d_status = Some (status_valid signer)\<rparr>)\<rparr>"





text \<open>The decryption fails: gpg exits with 2 and reports no signature.\<close>

definition failed_world :: world where
  "failed_world =
     offline_world
       \<lparr>gpg_decrypt := (\<lambda>text. \<lparr>d_returncode = 2, d_stdout = Some [],
            d_stderr = Some ''gpg: decryption failed: No secret key'',
            d_status = Some (''[GNUPG:] DECRYPTION_FAILED'' @ [CHR 0x0A] @
                             ''[GNUPG:] END_DECRYPTION'' @ [CHR 0x0A])\<rparr>)\<rparr>"


text \<open>gpg cannot encrypt: it exits with 2 and says why on its standard error.\<close>

definition no_key_world :: world where
  "no_key_world =
     offline_world\<lparr>gpg_encrypt := (\<lambda>text fp.
       \<lparr>e_returncode = 2, e_stdout = Some [],
        e_stderr = ''gpg: '' @ fp @ '': skipped: No public key''\<rparr>)\<rparr>"

text \<open>Every gist exists and has no file.\<close>

definition empty_gist_world :: world where
  "empty_gist_world = offline_world\<lparr>http_get := (\<lambda>url. Response 200 (Some []))\<rparr>"

text \<open>Alice's machine after Bob's key has been deleted from the keyring.\<close>

definition key_gone_world :: world where
  "key_gone_world = (alice_world fp_bob)\<lparr>gpg_list_keys := (\<lambda>pattern. [])\<rparr>"

text \<open>
  The same machine, and the signed message in Bob's gist decrypts to bytes that are no
  text: \<^verbatim>\<open>subprocess.run\<close> cannot decode the plaintext.
\<close>

definition key_gone_binary_world :: world where
  "key_gone_binary_world =
     key_gone_world\<lparr>gpg_decrypt := (\<lambda>text.
       \<lparr>d_returncode = 0, d_stdout = None, d_stderr = Some [],
        d_status = Some (status_valid fp_bob)\<rparr>)\<rparr>"

text \<open>Alice's machine with Carol's key in the keyring as well; only Bob is registered.\<close>

definition carol_world :: world where
  "carol_world =
     (alice_world fp_bob)\<lparr>gpg_list_keys := (\<lambda>pattern.
        if pattern = ''bob'' then key_listing fp_bob ''bob''
        else if pattern = ''carol'' then key_listing fp_eve ''carol''
        else [])\<rparr>"

text \<open>
  Alice's machine ready to send: gpg encrypts, the file \<^verbatim>\<open>msg.txt\<close> and the standard
  input hold \<^verbatim>\<open>hello\<close>, and Bob's repository exists, is empty and accepts pushes.
\<close>

definition sending_world :: world where
  "sending_world =
     (alice_world fp_bob)
       \<lparr>gpg_encrypt := (\<lambda>text fp. \<lparr>e_returncode = 0,
                                     e_stdout = Some (''-----BEGIN PGP MESSAGE-----'' @ text),
                                     e_stderr = []\<rparr>),
        readable_file := (\<lambda>path. if path = ''msg.txt'' then Some ''hello'' else None),
        stdin_text := ''hello'',
        stdin_bytes := ''hello'',
        remote := (\<lambda>url. if url = ''https://example/bob-tx.git'' then Some [] else None),
        push_allowed := True\<rparr>"

text \<open>
  Alice's machine with a cached working copy for Bob whose remote is another
  repository, one whose URL contains the address of Bob's.
\<close>

definition stale_cache_world :: world where
  "stale_cache_world =
     sending_world
       \<lparr>cache := (\<lambda>path. if path = ''~/.cache/yeet/bob/tx''
                          then Repo \<lparr>origin = ''https://example/bob-tx.git.old'', entries = [], commits = []\<rparr>
                          else Absent),
        remote := (\<lambda>url. if url = ''https://example/bob-tx.git'' \<or> url = ''https://example/bob-tx.git.old''
                          then Some [] else None)\<rparr>"

text \<open>Alice's machine before Bob is registered: his key is there, the registry is empty.\<close>

definition fresh_world :: world where
  "fresh_world = (alice_world fp_bob)\<lparr>config_file := Some []\<rparr>"


section \<open>Properties\<close>

subsection \<open>Iterators and status lines\<close>





lemma sig_line_Some: "sig_line status = Some line \<Longrightarrow> sublist '' VALIDSIG '' line"
  unfolding sig_line_def by (auto simp: find_Some_iff)

lemma sig_line_nonempty: "sig_line status = Some line \<Longrightarrow> line \<noteq> []"
  using sig_line_Some by fastforce

lemma errors_differ: "SignatureMissing \<noteq> SignerMismatch"
  by (simp add: SignatureMissing_def SignerMismatch_def)









lemma get_gist_first:
  "http_get w (''https://api.github.com/gists/'' @ ident) = Response code (Some ((name, content) # others)) \<Longrightarrow>
   \<not> (400 \<le> code \<and> code < 600) \<Longrightarrow> name \<noteq> [] \<Longrightarrow> get_gist w ident = Inr content"
  by (simp add: get_gist_def)

subsection \<open>The signer check of \<open>decrypt\<close>\<close>




subsection \<open>The failures of \<open>decrypt\<close>\<close>

text \<open>
  C2, as the specification states it, fails. The claim: a failed decryption is
  reported as \<open>DecryptFailure\<close>, and \<open>SignatureMissing\<close> is raised only when the
  decryption succeeds without a valid-signature status. Here gpg exits with 2 and its
  status says \<^verbatim>\<open>DECRYPTION_FAILED\<close>; \<open>decrypt\<close> never reads the exit code, finds no
  \<^verbatim>\<open>VALIDSIG\<close> line and raises \<open>SignatureMissing\<close>.
\<close>

theorem failed_decryption_is_signature_missing:
  "d_returncode (gpg_decrypt failed_world ''garbage'') \<noteq> 0 \<and>
   decrypt failed_world ''garbage'' (Some fp_bob) = Inl SignatureMissing"
  by code_simp

text \<open>
  C2, amended: \<open>decrypt\<close> has no failure of its own for a decryption that failed. Its
  result does not depend on gpg's exit code. It fails with a \<open>UnicodeDecodeError\<close>
  exactly when gpg's standard output, its standard error or the status cannot be
  decoded. When they can, it fails with \<open>SignatureMissing\<close> exactly when no status
  line contains \<^verbatim>\<open>" VALIDSIG "\<close>, whether the decryption failed or not.
  \<open>SignerMismatch\<close> is raised only when there is such a line; the two errors are
  different, and the only other failures are the decoding error and the type error
  of an expected fingerprint that is \<^verbatim>\<open>None\<close>.
\<close>

theorem decrypt_failure_kinds:
  "SignatureMissing \<noteq> SignerMismatch \<and>
   decrypt (w\<lparr>gpg_decrypt := (\<lambda>e. (gpg_decrypt w e)\<lparr>d_returncode := rc\<rparr>)\<rparr>) enc fp = decrypt w enc fp \<and>
   (decrypt w enc fp = Inl UnicodeDecodeError \<longleftrightarrow>
      d_stdout (gpg_decrypt w enc) = None \<or> d_stderr (gpg_decrypt w enc) = None \<or>
      d_status (gpg_decrypt w enc) = None) \<and>
   (d_stdout (gpg_decrypt w enc) = Some plaintext \<and> d_stderr (gpg_decrypt w enc) = Some diagnostics \<and>
    d_status (gpg_decrypt w enc) = Some status \<longrightarrow>
      (decrypt w enc fp = Inl SignatureMissing \<longleftrightarrow> sig_line (splitlines status) = None)) \<and>
   (decrypt w enc fp = Inl SignerMismatch \<longrightarrow>
      (\<exists>status line. d_status (gpg_decrypt w enc) = Some status \<and> sig_line (splitlines status) = Some line)) \<and>
   (decrypt w enc fp = Inl e \<longrightarrow>
      e = SignatureMissing \<or> e = SignerMismatch \<or> e = UnicodeDecodeError \<or> (\<exists>m. e = TypeError m))"
proof -
  have a: "SignatureMissing \<noteq> SignerMismatch" by (rule errors_differ)
  have b: "decrypt (w\<lparr>gpg_decrypt := (\<lambda>e. (gpg_decrypt w e)\<lparr>d_returncode := rc\<rparr>)\<rparr>) enc fp = decrypt w enc fp"
    by (simp add: decrypt_def Let_def split: option.splits)
  have u: "decrypt w enc fp = Inl UnicodeDecodeError \<longleftrightarrow>
      d_stdout (gpg_decrypt w enc) = None \<or> d_stderr (gpg_decrypt w enc) = None \<or>
      d_status (gpg_decrypt w enc) = None"
    by (auto simp: decrypt_def Let_def SignatureMissing_def SignerMismatch_def split: option.splits)
  have c: "decrypt w enc fp = Inl SignatureMissing \<longleftrightarrow> sig_line (splitlines status) = None"
    if "d_stdout (gpg_decrypt w enc) = Some plaintext" "d_stderr (gpg_decrypt w enc) = Some diagnostics"
      "d_status (gpg_decrypt w enc) = Some status"
    using that a sig_line_nonempty[of "splitlines status"]
    by (auto simp: decrypt_def Let_def SignatureMissing_def SignerMismatch_def split: option.splits)
  have d: "\<exists>status line. d_status (gpg_decrypt w enc) = Some status \<and> sig_line (splitlines status) = Some line"
    if "decrypt w enc fp = Inl SignerMismatch"
    using that
    by (auto simp: decrypt_def Let_def SignatureMissing_def SignerMismatch_def split: option.splits if_splits)
  have e: "e = SignatureMissing \<or> e = SignerMismatch \<or> e = UnicodeDecodeError \<or> (\<exists>m. e = TypeError m)"
    if "decrypt w enc fp = Inl e"
    using that by (auto simp: decrypt_def Let_def split: option.splits if_splits)
  from a b u c d e show ?thesis by blast
qed

text \<open>
  An instance: the failed decryption gives \<open>SignatureMissing\<close>, the message signed by
  Eve gives \<open>SignerMismatch\<close> and has a \<^verbatim>\<open>VALIDSIG\<close> line, and a signed message whose
  plaintext is no text gives the decoding error.
\<close>

theorem decrypt_failure_kinds_witness:
  "decrypt failed_world ''garbage'' (Some fp_bob) = Inl SignatureMissing \<and>
   sig_line (splitlines (''[GNUPG:] DECRYPTION_FAILED'' @ [CHR 0x0A] @
                         ''[GNUPG:] END_DECRYPTION'' @ [CHR 0x0A])) = None \<and>
   decrypt (alice_world fp_eve) ''msg'' (Some fp_bob) = Inl SignerMismatch \<and>
   (\<exists>text line. d_status (gpg_decrypt (alice_world fp_eve) ''msg'') = Some text \<and>
                sig_line (splitlines text) = Some line) \<and>
   decrypt key_gone_binary_world ''msg'' (Some fp_bob) = Inl UnicodeDecodeError"
proof -
  let ?status = "''[GNUPG:] DECRYPTION_FAILED'' @ [CHR 0x0A] @ ''[GNUPG:] END_DECRYPTION'' @ [CHR 0x0A]"
  have out: "d_stdout (gpg_decrypt failed_world ''garbage'') = Some []"
    by (simp add: failed_world_def offline_world_def)
  have err: "d_stderr (gpg_decrypt failed_world ''garbage'') = Some ''gpg: decryption failed: No secret key''"
    by (simp add: failed_world_def offline_world_def)
  have st: "d_status (gpg_decrypt failed_world ''garbage'') = Some ?status"
    by (simp add: failed_world_def offline_world_def)
  have none: "sig_line (splitlines ?status) = None" by code_simp
  have eve: "decrypt (alice_world fp_eve) ''msg'' (Some fp_bob) = Inl SignerMismatch" by code_simp
  have bin: "d_stdout (gpg_decrypt key_gone_binary_world ''msg'') = None"
    by (simp add: key_gone_binary_world_def)
  from decrypt_failure_kinds[where w = failed_world and enc = "''garbage''" and fp = "Some fp_bob"
      and status = ?status and plaintext = "[]"
      and diagnostics = "''gpg: decryption failed: No secret key''"]
    out err st none
  have 1: "decrypt failed_world ''garbage'' (Some fp_bob) = Inl SignatureMissing" by blast
  from decrypt_failure_kinds[where w = "alice_world fp_eve" and enc = "''msg''" and fp = "Some fp_bob"] eve
  have 2: "\<exists>text line. d_status (gpg_decrypt (alice_world fp_eve) ''msg'') = Some text \<and>
                       sig_line (splitlines text) = Some line" by blast
  from decrypt_failure_kinds[where w = key_gone_binary_world and enc = "''msg''" and fp = "Some fp_bob"] bin
  have 3: "decrypt key_gone_binary_world ''msg'' (Some fp_bob) = Inl UnicodeDecodeError" by blast
  from 1 none eve 2 3 show ?thesis by blast
qed

subsection \<open>Which fingerprint is resolved\<close>




subsection \<open>A failing encryption\<close>

text \<open>
  C4: when gpg exits non-zero, \<open>encrypt\<close> is to fail with a \<^verbatim>\<open>ClickException\<close> whose
  message holds gpg's diagnostic text. The code builds the message from
  \<^verbatim>\<open>proc.stderr.read()\<close>, and \<^verbatim>\<open>proc.stderr\<close> is a \<^verbatim>\<open>bytes\<close> object: at this input
  (gpg exits with 2 and explains that the key is missing) the call raises an
  \<open>AttributeError\<close> and no message is built.
\<close>

theorem encrypt_nonzero_exit_raises_attribute_error:
  "e_returncode (gpg_encrypt no_key_world ''hello'' fp_bob) = 2 \<and>
   e_stderr (gpg_encrypt no_key_world ''hello'' fp_bob) =
     ''gpg: 0123456789ABCDEF0123456789ABCDEF01234567: skipped: No public key'' \<and>
   encrypt no_key_world (PyStr ''hello'') fp_bob =
     Inl (AttributeError ''bytes object has no attribute read'')"
  by code_simp

subsection \<open>A gist without files\<close>

text \<open>
  C5: for a gist with no files, \<open>get_gist\<close> is to fail with its fetch failure, the
  \<^verbatim>\<open>RuntimeError("No file in gist")\<close> that the code raises when \<^verbatim>\<open>first_file\<close> is
  falsy. At this input (the gist exists, its \<^verbatim>\<open>files\<close> object is empty)
  \<^verbatim>\<open>next(iter(...))\<close> has no default and raises \<open>StopIteration\<close> before the test is
  reached.
\<close>

theorem get_gist_no_files_raises_stop_iteration:
  "http_get empty_gist_world ''https://api.github.com/gists/bob-rx'' = Response 200 (Some []) \<and>
   get_gist empty_gist_world ''bob-rx'' = Inl StopIteration \<and>
   get_gist empty_gist_world ''bob-rx'' \<noteq> Inl (RuntimeError ''No file in gist'')"
  by code_simp

subsection \<open>Receiving when the key no longer resolves\<close>

text \<open>
  C9, as it is stated, fails. The claim: whenever the nickname is registered, no key
  resolves for it and the fetched ciphertext reports a valid signature, \<^verbatim>\<open>from\<close>
  aborts with the type error of \<^verbatim>\<open>None not in sig_line\<close>. Here Bob is registered, his
  key is gone, the status has a \<^verbatim>\<open>VALIDSIG\<close> line, and the plaintext is no text: the
  run of gpg is in text mode, so \<^verbatim>\<open>subprocess.run\<close> raises a \<open>UnicodeDecodeError\<close>
  before the status is read.
\<close>

theorem from_unresolved_key_undecodable_plaintext:
  "load_config key_gone_binary_world = Inr \<lparr>receivers = [bob]\<rparr> \<and>
   fingerprint_from_pattern key_gone_binary_world ''bob'' = Inr None \<and>
   d_status (gpg_decrypt key_gone_binary_world ''-----BEGIN PGP MESSAGE-----'') = Some (status_valid fp_bob) \<and>
   sig_line (splitlines (status_valid fp_bob)) \<noteq> None \<and>
   from_cmd key_gone_binary_world ''bob'' = (Inl UnicodeDecodeError, [])"
  by code_simp

text \<open>
  C9, amended: in the Receive flow the expected fingerprint is passed on without a
  test for \<^verbatim>\<open>None\<close>. When the nickname is registered, its gist is fetched, no key
  resolves for it, gpg's output and status can be decoded and the status has a
  \<^verbatim>\<open>VALIDSIG\<close> line, \<^verbatim>\<open>from\<close> aborts with the \<open>TypeError\<close> of
  \<^verbatim>\<open>None not in sig_line\<close>, prints nothing, and does not report that no key was found;
  with a fingerprint that is a string the test never raises it.
\<close>

theorem from_unresolved_key_raises_type_error:
  assumes "load_config w = Inr config"
    and "find (\<lambda>r. nickname r = nick) (receivers config) = Some receiver"
    and "get_gist w (rx_gist_id receiver) = Inr enc"
    and "fingerprint_from_pattern w nick = Inr None"
    and "d_stdout (gpg_decrypt w enc) = Some plaintext"
    and "d_stderr (gpg_decrypt w enc) = Some diagnostics"
    and "d_status (gpg_decrypt w enc) = Some status"
    and "sig_line (splitlines status) = Some line"
  shows "from_cmd w nick =
           (Inl (TypeError ''in <string> requires string as left operand, not NoneType''), []) \<and>
         fst (from_cmd w nick) \<noteq> Inl (NoKeyFound nick) \<and>
         decrypt w enc (Some fp) \<noteq> Inl (TypeError m)"
  using assms sig_line_nonempty[OF assms(8)]
  by (simp add: from_cmd_def decrypt_def Let_def NoKeyFound_def SignerMismatch_def)

text \<open>An instance: Bob is registered, his message is signed, his key is gone.\<close>

theorem from_unresolved_key_witness:
  "from_cmd key_gone_world ''bob'' =
     (Inl (TypeError ''in <string> requires string as left operand, not NoneType''), [])"
proof -
  let ?enc = "''-----BEGIN PGP MESSAGE-----''"
  have 1: "load_config key_gone_world = Inr \<lparr>receivers = [bob]\<rparr>" by code_simp
  have 2: "find (\<lambda>r. nickname r = ''bob'') (receivers \<lparr>receivers = [bob]\<rparr>) = Some bob"
    by (simp add: bob_def)
  have 3: "get_gist key_gone_world (rx_gist_id bob) = Inr ?enc" by code_simp
  have 4: "fingerprint_from_pattern key_gone_world ''bob'' = Inr None" by code_simp
  have out: "d_stdout (gpg_decrypt key_gone_world ?enc) = Some ''hello''"
    by (simp add: key_gone_world_def alice_world_def offline_world_def)
  have err: "d_stderr (gpg_decrypt key_gone_world ?enc) = Some []"
    by (simp add: key_gone_world_def alice_world_def offline_world_def)
  have 5: "d_status (gpg_decrypt key_gone_world ?enc) = Some (status_valid fp_bob)"
    by (simp add: key_gone_world_def alice_world_def offline_world_def)
  have 6: "sig_line (splitlines (status_valid fp_bob)) =
      Some (''[GNUPG:] VALIDSIG '' @ fp_bob @ '' 2024-01-01 1704067200 0 4 0 22 10 00 '' @ fp_bob)"
    by code_simp
  from from_unresolved_key_raises_type_error[OF 1 2 3 4 out err 5 6] show ?thesis by simp
qed

subsection \<open>Sending a message from a file\<close>

text \<open>
  C10: a message file that is named on the command line is opened in binary mode, so
  the message is a \<^verbatim>\<open>bytes\<close> object and \<open>encrypt\<close> fails on \<^verbatim>\<open>cleartext.encode()\<close>.
  Every \<^verbatim>\<open>to\<close> with a named file fails and changes nothing; when the file opens, the
  nickname is registered and its key resolves, the failure is that
  \<open>AttributeError\<close>, raised before gpg runs; and a \<^verbatim>\<open>to\<close> that succeeds has read its
  message from the default, the text stream \<^verbatim>\<open>sys.stdin\<close>.
\<close>

theorem to_named_file_fails:
  "isl (fst (to_cmd w nick (Named path))) \<and>
   snd (to_cmd w nick (Named path)) = w \<and>
   (open_message w (Named path) = Inr message \<and> load_config w = Inr config \<and>
    find (\<lambda>r. nickname r = nick) (receivers config) = Some receiver \<and>
    fingerprint_from_pattern w nick = Inr (Some fp) \<and> fp \<noteq> []
      \<longrightarrow> to_cmd w nick (Named path) =
            (Inl (AttributeError ''bytes object has no attribute encode''), w)) \<and>
   (fst (to_cmd w nick arg) = Inr () \<longrightarrow> arg = DefaultStdin)"
proof -
  have bytes: "\<exists>b. message = PyBytes b" if "open_message w (Named path) = Inr message" for message path
    using that by (auto simp: open_message_def split: if_splits option.splits)
  have enc: "encrypt w (PyBytes b) fp = Inl (AttributeError ''bytes object has no attribute encode'')" for b fp
    by (simp add: encrypt_def)
  have named: "isl (fst (to_cmd w nick (Named path))) \<and> snd (to_cmd w nick (Named path)) = w" for path
  proof (cases "open_message w (Named path)")
    case (Inl e)
    then show ?thesis by (simp add: to_cmd_def)
  next
    case (Inr message)
    with bytes obtain b where "message = PyBytes b" by blast
    with Inr show ?thesis
      by (auto simp: to_cmd_def enc split: sum.splits option.splits)
  qed
  have c: "to_cmd w nick (Named path) = (Inl (AttributeError ''bytes object has no attribute encode''), w)"
    if "open_message w (Named path) = Inr message" "load_config w = Inr config"
      "find (\<lambda>r. nickname r = nick) (receivers config) = Some receiver"
      "fingerprint_from_pattern w nick = Inr (Some fp)" "fp \<noteq> []"
  proof -
    from bytes[OF that(1)] obtain b where "message = PyBytes b" by blast
    with that show ?thesis by (simp add: to_cmd_def enc)
  qed
  have d: "arg = DefaultStdin" if "fst (to_cmd w nick arg) = Inr ()"
  proof (cases arg)
    case DefaultStdin then show ?thesis by simp
  next
    case (Named p)
    with named[of p] that show ?thesis by simp
  qed
  from named c d show ?thesis by blast
qed

text \<open>
  An instance: on Alice's machine \<^verbatim>\<open>to bob\<close> succeeds with the message on the standard
  input, and \<^verbatim>\<open>to bob msg.txt\<close> fails on \<^verbatim>\<open>encode\<close>.
\<close>

theorem to_named_file_witness:
  "fst (to_cmd sending_world ''bob'' DefaultStdin) = Inr () \<and>
   to_cmd sending_world ''bob'' (Named ''msg.txt'') =
     (Inl (AttributeError ''bytes object has no attribute encode''), sending_world)"
proof -
  have ok: "fst (to_cmd sending_world ''bob'' DefaultStdin) = Inr ()" by code_simp
  have 1: "open_message sending_world (Named ''msg.txt'') = Inr (PyBytes ''hello'')" by code_simp
  have 2: "load_config sending_world = Inr \<lparr>receivers = [bob]\<rparr>" by code_simp
  have 3: "find (\<lambda>r. nickname r = ''bob'') (receivers \<lparr>receivers = [bob]\<rparr>) = Some bob"
    by (simp add: bob_def)
  have 4: "fingerprint_from_pattern sending_world ''bob'' = Inr (Some fp_bob)" by code_simp
  have 5: "fp_bob \<noteq> []" by (simp add: fp_bob_def)
  from to_named_file_fails[of sending_world "''bob''" "''msg.txt''" "PyBytes ''hello''"
      "\<lparr>receivers = [bob]\<rparr>" bob fp_bob DefaultStdin]
    ok 1 2 3 4 5
  show ?thesis by blast
qed

subsection \<open>Publishing the same content twice\<close>

lemma splitlines_from_line:
  "\<forall>c\<in>set s. \<not> linebreak c \<Longrightarrow>
   splitlines_from acc (s @ CHR 0x0A # rest) = (rev acc @ s) # splitlines_from [] rest"
proof (induction s arbitrary: acc)
  case Nil
  show ?case by (cases rest) (simp_all add: linebreak_def)
next
  case (Cons c s)
  have c: "\<not> linebreak c" "c \<noteq> CHR 0x0D" using Cons.prems by (auto simp: linebreak_def)
  obtain d ds where t: "s @ CHR 0x0A # rest = d # ds" by (cases s) auto
  have "splitlines_from acc ((c # s) @ CHR 0x0A # rest) = splitlines_from (c # acc) (s @ CHR 0x0A # rest)"
    using c by (simp add: t)
  also have "\<dots> = (rev (c # acc) @ s) # splitlines_from [] rest"
    using Cons by simp
  finally show ?case by simp
qed

lemma remote_v_mentions_url:
  assumes "\<forall>c\<in>set url. \<not> linebreak c"
  shows "list_ex (sublist url) (splitlines (remote_v_of url))"
proof -
  let ?first = "''origin'' @ [CHR 0x09] @ url @ '' (fetch)''"
  let ?rest = "''origin'' @ [CHR 0x09] @ url @ '' (push)'' @ [CHR 0x0A]"
  have nb: "\<forall>c\<in>set ?first. \<not> linebreak c"
    using assms by (auto simp: linebreak_def)
  have "remote_v_of url = ?first @ CHR 0x0A # ?rest"
    by (simp add: remote_v_of_def)
  then have "splitlines (remote_v_of url) = ?first # splitlines_from [] ?rest"
    using splitlines_from_line[OF nb, of "[]" ?rest] by (simp add: splitlines_def)
  moreover have "sublist url ?first"
    by (metis sublist_appendI append_assoc)
  ultimately show ?thesis by simp
qed

lemma ensure_repo_exists_cases:
  "ensure_repo_exists w path url = (Inr (), w') \<Longrightarrow>
     (\<exists>wc. cache w path = Repo wc \<and> list_ex (sublist url) (splitlines (remote_v_of (origin wc))) \<and> w' = w) \<or>
     (\<exists>wc. cache w' path = Repo wc \<and> origin wc = url)"
  by (auto simp: ensure_repo_exists_def git_clone_def Let_def split: dir_state.splits option.splits if_splits)

lemma set_gist_published:
  assumes "fst (set_gist w nick url content) = Inr ()"
  shows "\<exists>wc older. cache (snd (set_gist w nick url content)) (CACHE_DIR @ ''/'' @ nick @ ''/tx'') = Repo wc \<and>
           entries wc = [(''text.txt'', content)] \<and>
           commits wc = [(''text.txt'', content)] # older \<and>
           remote (snd (set_gist w nick url content)) (origin wc) = Some (commits wc) \<and>
           ((\<exists>wc0. cache w (CACHE_DIR @ ''/'' @ nick @ ''/tx'') = Repo wc0 \<and> origin wc0 = origin wc \<and>
                   list_ex (sublist url) (splitlines (remote_v_of (origin wc)))) \<or>
            origin wc = url)"
proof -
  let ?p = "CACHE_DIR @ ''/'' @ nick @ ''/tx''"
  obtain r1 w1 where e: "ensure_repo_exists w ?p url = (r1, w1)" by fastforce
  with assms have r1: "r1 = Inr ()" by (cases r1) (auto simp: set_gist_def Let_def)
  from ensure_repo_exists_cases[OF e[unfolded r1]]
  obtain wc where wc: "cache w1 ?p = Repo wc"
    and org: "(cache w ?p = Repo wc \<and> list_ex (sublist url) (splitlines (remote_v_of (origin wc)))) \<or>
              origin wc = url"
    by auto
  let ?wc2 = "wc\<lparr>entries := [(''text.txt'', content)]\<rparr>"
  let ?w2 = "w1\<lparr>cache := (cache w1)(?p := Repo ?wc2)\<rparr>"
  have s: "set_repo_message w1 ?p content = (Inr (), ?w2)"
    using wc by (simp add: set_repo_message_def)
  have sg: "set_gist w nick url content = commit_and_push ?w2 ?p"
    using e r1 s by (simp add: set_gist_def Let_def)
  with assms have ok: "fst (commit_and_push ?w2 ?p) = Inr ()" by simp
  then show ?thesis
    unfolding sg using org
    by (auto simp: commit_and_push_def Let_def split: if_splits option.splits)
qed

lemma set_gist_again:
  assumes "cache w (CACHE_DIR @ ''/'' @ nick @ ''/tx'') = Repo wc"
    and "entries wc = [(''text.txt'', content)]"
    and "commits wc = [(''text.txt'', content)] # older"
  shows "isl (fst (set_gist w nick url content)) \<and> snd (set_gist w nick url content) = w"
    and "list_ex (sublist url) (splitlines (remote_v_of (origin wc))) \<Longrightarrow>
         set_gist w nick url content = (Inl (CalledProcessError ''git commit''), w)"
proof -
  let ?p = "CACHE_DIR @ ''/'' @ nick @ ''/tx''"
  have same: "wc\<lparr>entries := [(''text.txt'', content)]\<rparr> = wc"
    using assms(2) by (metis working_copy.update_convs(2) working_copy.surjective working_copy.select_convs(2))
  have upd: "w\<lparr>cache := (cache w)(?p := Repo wc)\<rparr> = w"
    using assms(1) by (simp add: fun_upd_idem)
  have commit: "commit_and_push w ?p = (Inl (CalledProcessError ''git commit''), w)"
    using assms by (simp add: commit_and_push_def nothing_to_commit_def)
  have msg: "set_repo_message w ?p content = (Inr (), w)"
    using assms(1) same upd by (simp add: set_repo_message_def)
  show "list_ex (sublist url) (splitlines (remote_v_of (origin wc))) \<Longrightarrow>
         set_gist w nick url content = (Inl (CalledProcessError ''git commit''), w)"
    using assms(1) msg commit by (simp add: set_gist_def ensure_repo_exists_def Let_def)
  show "isl (fst (set_gist w nick url content)) \<and> snd (set_gist w nick url content) = w"
  proof (cases "list_ex (sublist url) (splitlines (remote_v_of (origin wc)))")
    case True
    then show ?thesis using assms(1) msg commit by (simp add: set_gist_def ensure_repo_exists_def Let_def)
  next
    case False
    then have "ensure_repo_exists w ?p url = (Inl (CalledProcessError ''git clone''), w)"
      using assms(1) by (simp add: ensure_repo_exists_def git_clone_def split: option.splits)
    then show ?thesis by (simp add: set_gist_def Let_def)
  qed
qed

text \<open>
  C6, as the specification states it, fails. The claim: publishing the same content
  twice in a row succeeds both times. Here the first \<open>set_gist\<close> clones Bob's
  repository, commits \<^verbatim>\<open>text.txt\<close> and pushes it; the second finds nothing to commit,
  \<^verbatim>\<open>git commit\<close> exits with 1 and \<^verbatim>\<open>check=True\<close> raises \<^verbatim>\<open>CalledProcessError\<close>. The
  remote keeps its one revision.
\<close>

theorem set_gist_twice_fails:
  "fst (set_gist sending_world ''bob'' ''https://example/bob-tx.git'' ''msg'') = Inr () \<and>
   fst (set_gist (snd (set_gist sending_world ''bob'' ''https://example/bob-tx.git'' ''msg''))
          ''bob'' ''https://example/bob-tx.git'' ''msg'') = Inl (CalledProcessError ''git commit'') \<and>
   remote (snd (set_gist (snd (set_gist sending_world ''bob'' ''https://example/bob-tx.git'' ''msg''))
          ''bob'' ''https://example/bob-tx.git'' ''msg'')) ''https://example/bob-tx.git''
     = Some [[(''text.txt'', ''msg'')]]"
  by code_simp

text \<open>
  C6, amended: let the cached working copy of the nickname, when there is one, have
  the address as its remote (the code only tests that the address occurs in what
  \<^verbatim>\<open>git remote -v\<close> prints; a cached copy of another repository is left open). After a
  \<open>set_gist\<close> that succeeds, the newest revision of the repository at the address is
  the single file \<^verbatim>\<open>text.txt\<close> with the content published. Publishing the same
  content again fails and changes nothing: the repository at the address keeps the
  same single file and gets no second revision; when the address has no line break
  the failure is that of \<^verbatim>\<open>git commit\<close>.
\<close>

theorem set_gist_same_content_again:
  assumes "fst (set_gist w nick url content) = Inr ()"
    and "w1 = snd (set_gist w nick url content)"
    and "\<And>wc0. cache w (CACHE_DIR @ ''/'' @ nick @ ''/tx'') = Repo wc0 \<Longrightarrow> origin wc0 = url"
  shows "(\<exists>older. remote w1 url = Some ([(''text.txt'', content)] # older)) \<and>
         isl (fst (set_gist w1 nick url content)) \<and>
         snd (set_gist w1 nick url content) = w1 \<and>
         ((\<forall>c\<in>set url. \<not> linebreak c) \<longrightarrow>
            set_gist w1 nick url content = (Inl (CalledProcessError ''git commit''), w1))"
proof -
  from set_gist_published[OF assms(1)] assms(2)
  obtain wc older where wc: "cache w1 (CACHE_DIR @ ''/'' @ nick @ ''/tx'') = Repo wc"
    and en: "entries wc = [(''text.txt'', content)]"
    and co: "commits wc = [(''text.txt'', content)] # older"
    and re: "remote w1 (origin wc) = Some (commits wc)"
    and org: "(\<exists>wc0. cache w (CACHE_DIR @ ''/'' @ nick @ ''/tx'') = Repo wc0 \<and> origin wc0 = origin wc \<and>
                   list_ex (sublist url) (splitlines (remote_v_of (origin wc)))) \<or>
              origin wc = url"
    by auto
  have url: "origin wc = url" using org assms(3) by auto
  have 1: "\<exists>older. remote w1 url = Some ([(''text.txt'', content)] # older)"
    using re co url by auto
  note again = set_gist_again[OF wc en co]
  have 4: "set_gist w1 nick url content = (Inl (CalledProcessError ''git commit''), w1)"
    if "\<forall>c\<in>set url. \<not> linebreak c"
  proof -
    have "list_ex (sublist url) (splitlines (remote_v_of (origin wc)))"
      using url remote_v_mentions_url[OF that] by auto
    then show ?thesis by (rule again(2))
  qed
  from 1 again(1) 4 show ?thesis by blast
qed

text \<open>
  An instance: Alice, with no cached copy, publishes \<^verbatim>\<open>msg\<close> for Bob twice.
\<close>

theorem set_gist_same_content_again_witness:
  "fst (set_gist sending_world ''bob'' ''https://example/bob-tx.git'' ''msg'') = Inr () \<and>
   remote (snd (set_gist sending_world ''bob'' ''https://example/bob-tx.git'' ''msg''))
      ''https://example/bob-tx.git'' = Some [[(''text.txt'', ''msg'')]] \<and>
   set_gist (snd (set_gist sending_world ''bob'' ''https://example/bob-tx.git'' ''msg''))
      ''bob'' ''https://example/bob-tx.git'' ''msg'' =
     (Inl (CalledProcessError ''git commit''),
      snd (set_gist sending_world ''bob'' ''https://example/bob-tx.git'' ''msg''))"
proof -
  have ok: "fst (set_gist sending_world ''bob'' ''https://example/bob-tx.git'' ''msg'') = Inr ()"
    by code_simp
  have before: "remote (snd (set_gist sending_world ''bob'' ''https://example/bob-tx.git'' ''msg''))
      ''https://example/bob-tx.git'' = Some [[(''text.txt'', ''msg'')]]"
    by code_simp
  have nb: "\<forall>c\<in>set ''https://example/bob-tx.git''. \<not> linebreak c"
    by (simp add: linebreak_def)
  have own: "origin wc0 = ''https://example/bob-tx.git''"
    if "cache sending_world (CACHE_DIR @ ''/'' @ ''bob'' @ ''/tx'') = Repo wc0" for wc0
    using that by (simp add: sending_world_def alice_world_def offline_world_def)
  from set_gist_same_content_again[OF ok refl own] nb ok before show ?thesis by blast
qed

text \<open>
  What the hypothesis on the cached copy excludes: with a cached copy of a repository
  whose URL contains the address, \<open>set_gist\<close> succeeds and pushes there, and the
  repository at the address gets no revision.
\<close>

lemma set_gist_stale_cache:
  "fst (set_gist stale_cache_world ''bob'' ''https://example/bob-tx.git'' ''msg'') = Inr () \<and>
   remote (snd (set_gist stale_cache_world ''bob'' ''https://example/bob-tx.git'' ''msg''))
     ''https://example/bob-tx.git'' = Some [] \<and>
   remote (snd (set_gist stale_cache_world ''bob'' ''https://example/bob-tx.git'' ''msg''))
     ''https://example/bob-tx.git.old'' = Some [[(''text.txt'', ''msg'')]]"
  by code_simp

subsection \<open>Saving and loading the registry\<close>

text \<open>The scanner reads back what \<open>json_encode\<close> writes.\<close>

lemma scan_all_append:
  "scan_all st toks (xs @ ys) =
     (case scan_all st toks xs of None \<Rightarrow> None | Some (st', toks') \<Rightarrow> scan_all st' toks' ys)"
  by (induction xs arbitrary: st toks) (auto split: option.splits)

lemma scan_spaces: "scan_all Between toks (replicate n CHR '' '') = Some (Between, toks)"
  by (induction n) (simp_all add: scan_between_def whitespace_def)

lemma scan_newline_indent: "scan_all Between toks (newline_indent k) = Some (Between, toks)"
  by (simp add: newline_indent_def scan_between_def whitespace_def scan_spaces)

lemma hex_value_hex_digit: "k < 16 \<Longrightarrow> hex_value (hex_digit k) = Some k"
proof -
  assume "k < 16"
  then have "k = 0 \<or> k = 1 \<or> k = 2 \<or> k = 3 \<or> k = 4 \<or> k = 5 \<or> k = 6 \<or> k = 7 \<or>
             k = 8 \<or> k = 9 \<or> k = 10 \<or> k = 11 \<or> k = 12 \<or> k = 13 \<or> k = 14 \<or> k = 15"
    by arith
  then show ?thesis
    by (elim disjE) (simp_all add: hex_digit_def hex_value_def)
qed

lemma of_char_less_256: "(of_char c :: nat) < 256"
  by (cases c) simp

lemma scan_escape_char:
  "scan_all (InStr acc) toks (escape_char c) = Some (InStr (c # acc), toks)"
proof -
  let ?n = "of_char c :: nat"
  have hi: "?n div 16 < 16" using of_char_less_256[of c] by arith
  have lo: "?n mod 16 < 16" by simp
  have chr: "char_of (?n div 16 * 16 + ?n mod 16) = c" by simp
  have code: "?n div 16 * 16 + ?n mod 16 < 256" using of_char_less_256[of c] by simp
  have h0: "hex_value CHR ''0'' = Some 0" by (simp add: hex_value_def)
  consider "c = CHR 0x22" | "c = CHR 0x5C" | "c = CHR 0x0A" | "c = CHR 0x0D" | "c = CHR 0x09"
    | "c = CHR 0x08" | "c = CHR 0x0C"
    | "c \<notin> {CHR 0x22, CHR 0x5C, CHR 0x0A, CHR 0x0D, CHR 0x09, CHR 0x08, CHR 0x0C}" "32 \<le> ?n \<and> ?n \<le> 126"
    | "c \<notin> {CHR 0x22, CHR 0x5C, CHR 0x0A, CHR 0x0D, CHR 0x09, CHR 0x08, CHR 0x0C}" "\<not> (32 \<le> ?n \<and> ?n \<le> 126)"
    by blast
  then show ?thesis
  proof cases
    case 8
    then show ?thesis by (simp add: escape_char_def)
  next
    case 9
    then show ?thesis
      using hex_value_hex_digit[OF hi] hex_value_hex_digit[OF lo] chr code
      by (simp add: escape_char_def h0 unescape_def)
  qed (simp_all add: escape_char_def unescape_def)
qed

lemma scan_escaped:
  "scan_all (InStr acc) toks (concat (map escape_char s)) = Some (InStr (rev s @ acc), toks)"
  by (induction s arbitrary: acc) (simp_all add: scan_all_append scan_escape_char)

lemma scan_encode_string:
  "scan_all Between toks (encode_string s) = Some (Between, TStr s # toks)"
  by (simp add: encode_string_def scan_between_def whitespace_def scan_all_append scan_escaped)

lemma scan_punct:
  "scan_all Between toks (CHR ''['' # rest) = scan_all Between (TLBrack # toks) rest"
  "scan_all Between toks (CHR '']'' # rest) = scan_all Between (TRBrack # toks) rest"
  "scan_all Between toks (CHR ''{'' # rest) = scan_all Between (TLBrace # toks) rest"
  "scan_all Between toks (CHR ''}'' # rest) = scan_all Between (TRBrace # toks) rest"
  "scan_all Between toks (CHR '','' # rest) = scan_all Between (TComma # toks) rest"
  "scan_all Between toks (CHR '':'' # CHR '' '' # rest) = scan_all Between (TColon # toks) rest"
  by (simp_all add: scan_between_def whitespace_def)

lemma scan_join:
  assumes "\<And>x toks. x \<in> set xs \<Longrightarrow> scan_all Between toks (enc x) = Some (Between, rev (tk x) @ toks)"
    and "xs \<noteq> []"
  shows "scan_all Between toks (join ('','' @ newline_indent k) (map enc xs)) =
           Some (Between, rev (commas (map tk xs)) @ toks)"
  using assms
proof (induction xs arbitrary: toks)
  case Nil
  then show ?case by simp
next
  case (Cons x xs)
  show ?case
  proof (cases xs)
    case Nil
    then show ?thesis using Cons.prems(1)[of x] by simp
  next
    case (Cons y ys)
    have "scan_all Between (TComma # rev (tk x) @ toks) (join ('','' @ newline_indent k) (map enc xs))
          = Some (Between, rev (commas (map tk xs)) @ TComma # rev (tk x) @ toks)"
      using Cons.IH[of "TComma # rev (tk x) @ toks"] Cons.prems(1) Cons by simp
    then show ?thesis
      using Cons Cons.prems(1)[of x toks]
      by (simp add: scan_all_append scan_punct scan_newline_indent del: scan_all.simps(2))
  qed
qed

lemma scan_json_encode:
  "plain v \<Longrightarrow> scan_all Between toks (json_encode level v) = Some (Between, rev (toks_of v) @ toks)"
proof (induction v arbitrary: toks level)
  case (JStr s)
  then show ?case by (simp add: scan_encode_string)
next
  case (JArr vs)
  show ?case
  proof (cases "vs = []")
    case True
    then show ?thesis by (simp add: scan_punct del: scan_all.simps(2))
  next
    case False
    have each: "scan_all Between toks (json_encode (Suc level) x) = Some (Between, rev (toks_of x) @ toks)"
      if "x \<in> set vs" for x toks
      using JArr.IH[OF that] JArr.prems that by (simp add: list_all_iff)
    show ?thesis
      using False scan_join[of vs "json_encode (Suc level)" toks_of _ "Suc level", OF each False]
      by (simp add: scan_all_append scan_punct scan_newline_indent del: scan_all.simps(2))
  qed
next
  case (JObj ms)
  show ?case
  proof (cases "ms = []")
    case True
    then show ?thesis by (simp add: scan_punct del: scan_all.simps(2))
  next
    case False
    let ?enc = "\<lambda>m. encode_string (fst m) @ '': '' @ json_encode (Suc level) (snd m)"
    let ?tk = "\<lambda>m. TStr (fst m) # TColon # toks_of (snd m)"
    have each: "scan_all Between toks (?enc m) = Some (Between, rev (?tk m) @ toks)"
      if "m \<in> set ms" for m toks
    proof -
      have "snd m \<in> Basic_BNFs.snds m" by (cases m) simp
      moreover have "plain (snd m)" using JObj.prems that by (simp add: list_all_iff)
      ultimately have "scan_all Between toks' (json_encode (Suc level) (snd m)) =
                 Some (Between, rev (toks_of (snd m)) @ toks')" for toks'
        using JObj.IH[OF that] by blast
      then show ?thesis
        by (simp add: scan_all_append scan_encode_string scan_punct del: scan_all.simps(2))
    qed
    show ?thesis
      using False scan_join[of ms ?enc ?tk _ "Suc level", OF each False]
      by (simp add: scan_all_append scan_punct scan_newline_indent del: scan_all.simps(2))
  qed
qed simp_all

lemma tokens_json_encode: "plain v \<Longrightarrow> tokens (json_encode level v) = Parsed (toks_of v)"
  by (simp add: tokens_def scan_json_encode[of v "[]"])

text \<open>The parser rebuilds a value from its tokens.\<close>

lemma prun_append:
  "prun st (xs @ ys) = (case prun st xs of None \<Rightarrow> None | Some st' \<Rightarrow> prun st' ys)"
  by (induction xs arbitrary: st) (auto split: option.splits)

lemma commas_Cons: "commas (x # xs) = x @ concat (map (\<lambda>y. TComma # y) xs)"
  by (induction xs arbitrary: x) simp_all

lemma toks_of_start:
  "plain v \<Longrightarrow> \<exists>t ts. toks_of v = t # ts \<and> t \<noteq> TRBrack \<and> pstep (PArr0 fs) t = pstep (PValue (FArr [] # fs)) t"
  by (cases v) simp_all

lemma prun_elements:
  assumes "\<And>v fs. v \<in> set vs \<Longrightarrow> prun (PValue fs) (toks_of v) = Some (reduce v fs)"
  shows "prun (PArr acc fs) (concat (map (\<lambda>y. TComma # y) (map toks_of vs)) @ [TRBrack]) =
           Some (reduce (JArr (rev acc @ vs)) fs)"
  using assms
proof (induction vs arbitrary: acc)
  case Nil
  then show ?case by simp
next
  case (Cons v vs)
  have "prun (PArr (v # acc) fs) (concat (map (\<lambda>y. TComma # y) (map toks_of vs)) @ [TRBrack]) =
          Some (reduce (JArr (rev (v # acc) @ vs)) fs)"
    using Cons.IH[of "v # acc"] Cons.prems by simp
  then show ?case
    using Cons.prems[of v "FArr acc # fs"]
    by (simp add: prun_append)
qed

lemma prun_members:
  assumes "\<And>m fs. m \<in> set ms \<Longrightarrow> prun (PValue fs) (toks_of (snd m)) = Some (reduce (snd m) fs)"
  shows "prun (PObj acc fs)
           (concat (map (\<lambda>y. TComma # y) (map (\<lambda>m. TStr (fst m) # TColon # toks_of (snd m)) ms)) @ [TRBrace]) =
           Some (reduce (JObj (rev acc @ ms)) fs)"
  using assms
proof (induction ms arbitrary: acc)
  case Nil
  then show ?case by simp
next
  case (Cons m ms)
  have "prun (PObj (m # acc) fs)
          (concat (map (\<lambda>y. TComma # y) (map (\<lambda>m. TStr (fst m) # TColon # toks_of (snd m)) ms)) @ [TRBrace]) =
          Some (reduce (JObj (rev (m # acc) @ ms)) fs)"
    using Cons.IH[of "m # acc"] Cons.prems by simp
  then show ?case
    using Cons.prems[of m "FObj acc (fst m) # fs"]
    by (simp add: prun_append)
qed

lemma prun_value: "plain v \<Longrightarrow> prun (PValue fs) (toks_of v) = Some (reduce v fs)"
proof (induction v arbitrary: fs)
  case (JStr s)
  then show ?case by simp
next
  case (JArr vs)
  have each: "prun (PValue fs) (toks_of v) = Some (reduce v fs)" if "v \<in> set vs" for v fs
    using JArr.IH[OF that] JArr.prems that by (simp add: list_all_iff)
  show ?case
  proof (cases vs)
    case Nil
    then show ?thesis by simp
  next
    case (Cons v vs')
    have pv: "plain v" using JArr.prems Cons by simp
    from toks_of_start[OF pv, of fs] obtain t ts where t: "toks_of v = t # ts" "t \<noteq> TRBrack"
      "pstep (PArr0 fs) t = pstep (PValue (FArr [] # fs)) t" by blast
    have first: "prun (PArr0 fs) (toks_of v) = Some (PArr [v] fs)"
      using each[of v "FArr [] # fs"] Cons t by simp
    have rest: "prun (PArr [v] fs) (concat (map (\<lambda>y. TComma # y) (map toks_of vs')) @ [TRBrack]) =
                  Some (reduce (JArr (rev [v] @ vs')) fs)"
      using prun_elements[of vs' "[v]" fs] each Cons by simp
    show ?thesis
      using Cons first rest by (simp add: commas_Cons prun_append del: commas.simps)
  qed
next
  case (JObj ms)
  have each: "prun (PValue fs) (toks_of (snd m)) = Some (reduce (snd m) fs)" if "m \<in> set ms" for m fs
  proof -
    have "snd m \<in> Basic_BNFs.snds m" by (cases m) simp
    moreover have "plain (snd m)" using JObj.prems that by (simp add: list_all_iff)
    ultimately show ?thesis using JObj.IH[OF that] by blast
  qed
  show ?case
  proof (cases ms)
    case Nil
    then show ?thesis by simp
  next
    case (Cons m ms')
    let ?X = "TStr (fst m) # TColon # toks_of (snd m)"
    let ?Y = "concat (map (\<lambda>y. TComma # y) (map (\<lambda>m. TStr (fst m) # TColon # toks_of (snd m)) ms')) @ [TRBrace]"
    have first: "prun (PObj0 fs) ?X = Some (PObj [m] fs)"
      using each[of m "FObj [] (fst m) # fs"] Cons by simp
    have rest: "prun (PObj [m] fs) ?Y = Some (reduce (JObj (rev [m] @ ms')) fs)"
      using prun_members[of ms' "[m]" fs] each Cons by simp
    have shape: "toks_of (JObj ms) = TLBrace # (?X @ ?Y)"
      using Cons by (simp add: commas_Cons del: commas.simps)
    have "prun (PValue fs) (TLBrace # (?X @ ?Y)) = prun (PObj0 fs) (?X @ ?Y)"
      by simp
    also have "\<dots> = prun (PObj [m] fs) ?Y"
      by (subst prun_append) (simp only: first option.case)
    finally show ?thesis
      using rest Cons shape by simp
  qed
qed simp_all

lemma json_parse_json_encode: "plain v \<Longrightarrow> json_parse (json_encode level v) = Parsed v"
  by (simp add: json_parse_def tokens_json_encode prun_value)

text \<open>Validation accepts what \<open>model_dump\<close> produces, and gives the registry back.\<close>

lemma plain_model_dump: "plain (model_dump config)"
  by (simp add: model_dump_def dump_receiver_def list_all_iff)

lemma validate_receiver_dump: "validate_receiver (dump_receiver r) = Some r"
  by (simp add: validate_receiver_def dump_receiver_def str_field_def field_def)

lemma validate_all_dump: "validate_all (map dump_receiver rs) = Some rs"
  by (induction rs) (simp_all add: validate_receiver_dump)

lemma validate_config_dump: "validate_config (model_dump config) = Some config"
  by (simp add: validate_config_def model_dump_def field_def validate_all_dump)

lemma model_validate_json_dump: "model_validate_json (json_encode level (model_dump config)) = Inr config"
  by (simp add: model_validate_json_def json_parse_json_encode[OF plain_model_dump] validate_config_dump)

lemma json_encode_model_dump_nonempty: "json_encode level (model_dump config) \<noteq> []"
  by (simp add: model_dump_def)

lemma load_config_save_config: "load_config (save_config w config) = Inr config"
  by (simp add: load_config_def save_config_def json_encode_model_dump_nonempty model_validate_json_dump)

text \<open>
  C8: the registry survives saving and loading. For every registry,
  \<open>load_config\<close> after \<open>save_config\<close> returns that registry: the same records with
  the same three fields, in the same order. Loading an empty file returns the empty
  registry, not an error.
\<close>

theorem load_config_after_save_config:
  "load_config (save_config w config) = Inr config \<and>
   load_config (w\<lparr>config_file := Some []\<rparr>) = Inr \<lparr>receivers = []\<rparr>"
  by (simp add: load_config_save_config) (simp add: load_config_def)

subsection \<open>Registering a receiver\<close>

text \<open>
  C7, as the specification states it, fails. The claim: when the nickname is already
  registered, \<^verbatim>\<open>add-receiver\<close> fails with \<open>DuplicateNickname\<close>. Here Bob is
  registered and his key has been deleted from the keyring: the key is looked up
  first, and the command fails with the error for a missing key.
\<close>

theorem add_receiver_registered_without_key:
  "load_config key_gone_world = Inr \<lparr>receivers = [bob]\<rparr> \<and>
   ''bob'' \<in> set (map nickname (receivers \<lparr>receivers = [bob]\<rparr>)) \<and>
   fst (add_receiver key_gone_world ''bob'' ''bob-rx'' ''https://example/bob-tx.git'') =
     Inl (NoKeyFound ''bob'') \<and>
   NoKeyFound ''bob'' \<noteq> DuplicateNickname ''bob''"
  by code_simp

text \<open>
  C7, amended: \<^verbatim>\<open>add-receiver\<close> looks the key up first. It fails with the error for a
  missing key when no key resolves for the nickname, registered or not; it fails with
  the error for a duplicate when the key resolves and the nickname is in the
  registry; a nickname that is in the registry fails in any case. Whenever it fails,
  nothing has changed, the registry file included. When the key resolves, the
  registry loads and the nickname is new, it succeeds, and the registry loaded
  afterwards is the registry loaded before with exactly the new record appended; a
  success is always of this kind, and changes the registry file only.
\<close>

theorem add_receiver_outcomes:
  "(fingerprint_from_pattern w nick = Inr None
      \<longrightarrow> add_receiver w nick rx tx = (Inl (NoKeyFound nick), w)) \<and>
   (fingerprint_from_pattern w nick = Inr (Some fp) \<and> fp \<noteq> [] \<and> load_config w = Inr config \<and>
    nick \<in> set (map nickname (receivers config))
      \<longrightarrow> add_receiver w nick rx tx = (Inl (DuplicateNickname nick), w)) \<and>
   (load_config w = Inr config \<and> nick \<in> set (map nickname (receivers config))
      \<longrightarrow> isl (fst (add_receiver w nick rx tx))) \<and>
   (fst (add_receiver w nick rx tx) = Inl e \<longrightarrow> snd (add_receiver w nick rx tx) = w) \<and>
   (fingerprint_from_pattern w nick = Inr (Some fp) \<and> fp \<noteq> [] \<and> load_config w = Inr config \<and>
    nick \<notin> set (map nickname (receivers config))
      \<longrightarrow> add_receiver w nick rx tx =
            (Inr (), save_config w (config\<lparr>receivers := receivers config @
                       [\<lparr>nickname = nick, rx_gist_id = rx, tx_gist_url = tx\<rparr>]\<rparr>)) \<and>
          load_config (snd (add_receiver w nick rx tx)) =
            Inr (config\<lparr>receivers := receivers config @
                   [\<lparr>nickname = nick, rx_gist_id = rx, tx_gist_url = tx\<rparr>]\<rparr>)) \<and>
   (fst (add_receiver w nick rx tx) = Inr ()
      \<longrightarrow> (\<exists>old. load_config w = Inr old \<and>
                 nick \<notin> set (map nickname (receivers old)) \<and>
                 load_config (snd (add_receiver w nick rx tx)) =
                   Inr (old\<lparr>receivers := receivers old @
                          [\<lparr>nickname = nick, rx_gist_id = rx, tx_gist_url = tx\<rparr>]\<rparr>) \<and>
                 snd (add_receiver w nick rx tx) =
                   w\<lparr>config_file := config_file (snd (add_receiver w nick rx tx))\<rparr>))"
proof -
  have a: "add_receiver w nick rx tx = (Inl (NoKeyFound nick), w)"
    if "fingerprint_from_pattern w nick = Inr None"
    using that by (simp add: add_receiver_def)
  have b: "add_receiver w nick rx tx = (Inl (DuplicateNickname nick), w)"
    if "fingerprint_from_pattern w nick = Inr (Some fp)" "fp \<noteq> []" "load_config w = Inr config"
      "nick \<in> set (map nickname (receivers config))"
    using that by (simp add: add_receiver_def)
  have b': "isl (fst (add_receiver w nick rx tx))"
    if "load_config w = Inr config" "nick \<in> set (map nickname (receivers config))"
    using that by (auto simp: add_receiver_def split: sum.splits)
  have c: "snd (add_receiver w nick rx tx) = w" if "fst (add_receiver w nick rx tx) = Inl e"
    using that by (auto simp: add_receiver_def Let_def split: sum.splits if_splits)
  have s: "add_receiver w nick rx tx =
            (Inr (), save_config w (config\<lparr>receivers := receivers config @
                       [\<lparr>nickname = nick, rx_gist_id = rx, tx_gist_url = tx\<rparr>]\<rparr>)) \<and>
          load_config (snd (add_receiver w nick rx tx)) =
            Inr (config\<lparr>receivers := receivers config @
                   [\<lparr>nickname = nick, rx_gist_id = rx, tx_gist_url = tx\<rparr>]\<rparr>)"
    if "fingerprint_from_pattern w nick = Inr (Some fp)" "fp \<noteq> []" "load_config w = Inr config"
      "nick \<notin> set (map nickname (receivers config))"
    using that by (simp add: add_receiver_def Let_def load_config_save_config)
  have d: "\<exists>old. load_config w = Inr old \<and>
                 nick \<notin> set (map nickname (receivers old)) \<and>
                 load_config (snd (add_receiver w nick rx tx)) =
                   Inr (old\<lparr>receivers := receivers old @
                          [\<lparr>nickname = nick, rx_gist_id = rx, tx_gist_url = tx\<rparr>]\<rparr>) \<and>
                 snd (add_receiver w nick rx tx) =
                   w\<lparr>config_file := config_file (snd (add_receiver w nick rx tx))\<rparr>"
    if "fst (add_receiver w nick rx tx) = Inr ()"
    using that
    by (auto simp: add_receiver_def Let_def load_config_save_config split: sum.splits if_splits)
       (simp add: save_config_def)
  from a b b' c s d show ?thesis by blast
qed

text \<open>
  An instance: no key matches \<^verbatim>\<open>carol\<close> on the empty keyring; Bob is registered already
  on Alice's machine; where he is not, registering him makes the registry hold his
  record; and where he is and Carol's key is in the keyring, registering Carol appends
  her record after his.
\<close>

theorem add_receiver_outcomes_witness:
  "add_receiver offline_world ''carol'' ''carol-rx'' ''https://example/carol-tx.git'' =
     (Inl (NoKeyFound ''carol''), offline_world) \<and>
   add_receiver (alice_world fp_bob) ''bob'' ''bob-rx'' ''https://example/bob-tx.git'' =
     (Inl (DuplicateNickname ''bob''), alice_world fp_bob) \<and>
   fst (add_receiver fresh_world ''bob'' ''bob-rx'' ''https://example/bob-tx.git'') = Inr () \<and>
   load_config (snd (add_receiver fresh_world ''bob'' ''bob-rx'' ''https://example/bob-tx.git'')) =
     Inr \<lparr>receivers = [bob]\<rparr> \<and>
   fst (add_receiver carol_world ''carol'' ''carol-rx'' ''https://example/carol-tx.git'') = Inr () \<and>
   load_config (snd (add_receiver carol_world ''carol'' ''carol-rx'' ''https://example/carol-tx.git'')) =
     Inr \<lparr>receivers = [bob, \<lparr>nickname = ''carol'', rx_gist_id = ''carol-rx'',
                                 tx_gist_url = ''https://example/carol-tx.git''\<rparr>]\<rparr>"
proof -
  let ?tx = "''https://example/bob-tx.git''"
  let ?ctx = "''https://example/carol-tx.git''"
  have none: "fingerprint_from_pattern offline_world ''carol'' = Inr None" by code_simp
  have fp: "fingerprint_from_pattern (alice_world fp_bob) ''bob'' = Inr (Some fp_bob)" by code_simp
  have ne: "fp_bob \<noteq> []" by (simp add: fp_bob_def)
  have cfg: "load_config (alice_world fp_bob) = Inr \<lparr>receivers = [bob]\<rparr>" by code_simp
  have mem: "''bob'' \<in> set (map nickname (receivers \<lparr>receivers = [bob]\<rparr>))" by (simp add: bob_def)
  have ok: "fst (add_receiver fresh_world ''bob'' ''bob-rx'' ?tx) = Inr ()" by code_simp
  have old: "load_config fresh_world = Inr \<lparr>receivers = []\<rparr>" by code_simp
  have cfp: "fingerprint_from_pattern carol_world ''carol'' = Inr (Some fp_eve)" by code_simp
  have cne: "fp_eve \<noteq> []" by (simp add: fp_eve_def)
  have ccfg: "load_config carol_world = Inr \<lparr>receivers = [bob]\<rparr>" by code_simp
  have new: "''carol'' \<notin> set (map nickname (receivers \<lparr>receivers = [bob]\<rparr>))" by (simp add: bob_def)
  from add_receiver_outcomes[of offline_world "''carol''" "''carol-rx''" ?ctx] none
  have 1: "add_receiver offline_world ''carol'' ''carol-rx'' ?ctx =
     (Inl (NoKeyFound ''carol''), offline_world)" by blast
  from add_receiver_outcomes[of "alice_world fp_bob" "''bob''" "''bob-rx''" ?tx fp_bob "\<lparr>receivers = [bob]\<rparr>"]
    fp ne cfg mem
  have 2: "add_receiver (alice_world fp_bob) ''bob'' ''bob-rx'' ?tx =
     (Inl (DuplicateNickname ''bob''), alice_world fp_bob)" by blast
  from add_receiver_outcomes[of fresh_world "''bob''" "''bob-rx''" ?tx] ok old
  have 3: "load_config (snd (add_receiver fresh_world ''bob'' ''bob-rx'' ?tx)) = Inr \<lparr>receivers = [bob]\<rparr>"
    by (auto simp: bob_def)
  from add_receiver_outcomes[of carol_world "''carol''" "''carol-rx''" ?ctx fp_eve "\<lparr>receivers = [bob]\<rparr>"]
    cfp cne ccfg new
  have appended: "add_receiver carol_world ''carol'' ''carol-rx'' ?ctx =
      (Inr (), save_config carol_world (\<lparr>receivers = [bob]\<rparr>\<lparr>receivers := receivers \<lparr>receivers = [bob]\<rparr> @
         [\<lparr>nickname = ''carol'', rx_gist_id = ''carol-rx'', tx_gist_url = ?ctx\<rparr>]\<rparr>)) \<and>
     load_config (snd (add_receiver carol_world ''carol'' ''carol-rx'' ?ctx)) =
      Inr (\<lparr>receivers = [bob]\<rparr>\<lparr>receivers := receivers \<lparr>receivers = [bob]\<rparr> @
         [\<lparr>nickname = ''carol'', rx_gist_id = ''carol-rx'', tx_gist_url = ?ctx\<rparr>]\<rparr>)"
    by blast
  then have 4: "fst (add_receiver carol_world ''carol'' ''carol-rx'' ?ctx) = Inr ()"
    and 5: "load_config (snd (add_receiver carol_world ''carol'' ''carol-rx'' ?ctx)) =
     Inr \<lparr>receivers = [bob, \<lparr>nickname = ''carol'', rx_gist_id = ''carol-rx'', tx_gist_url = ?ctx\<rparr>]\<rparr>"
    by (simp_all add: load_config_save_config)
  from 1 2 ok 3 4 5 show ?thesis by blast
qed

end
